theory Spec2Isabelle
  imports Main "HOL-Library.Sublist" "HOL-Library.AList"
begin

section \<open>Values of a workflow document\<close>

text \<open>
  A workflow file is read with \<^verbatim>\<open>json.load\<close>, so every value the program handles is
  a Python object built from \<^verbatim>\<open>None\<close>, \<^verbatim>\<open>bool\<close>, \<^verbatim>\<open>int\<close>, \<^verbatim>\<open>float\<close>,
  \<^verbatim>\<open>str\<close>, \<^verbatim>\<open>list\<close> and \<^verbatim>\<open>dict\<close>. A dict keeps its keys in insertion order, and
  \<^verbatim>\<open>json.dump\<close> writes them in that order, so a dict is an association list: a lookup
  is \<open>map_of\<close>, and \<^verbatim>\<open>d[k] = v\<close> is \<open>AList.update\<close> (the value is replaced where the
  key stands, a new key is appended). The program only tests a float for truth and
  compares it with an integer bound, so a float \<open>m * 2 ^ e\<close> is kept as mantissa and
  exponent.
\<close>

datatype json =
    JNull
  | JBool bool
  | JInt int
  | JFloat int int
  | JStr string
  | JList "json list"
  | JObj "(string \<times> json) list"

type_synonym pydict = "(string \<times> json) list"

datatype py_error =
    AttributeError
  | TypeError
  | KeyError
  | FileNotFoundError
  | JSONDecodeError
  | PermissionError

text \<open>Truth value of an object, as \<^verbatim>\<open>if x\<close> and \<^verbatim>\<open>x if c else y\<close> test it.\<close>

fun truthy :: "json \<Rightarrow> bool" where
  "truthy JNull = False"
| "truthy (JBool b) = b"
| "truthy (JInt n) = (n \<noteq> 0)"
| "truthy (JFloat m e) = (m \<noteq> 0)"
| "truthy (JStr s) = (s \<noteq> [])"
| "truthy (JList xs) = (xs \<noteq> [])"
| "truthy (JObj d) = (d \<noteq> [])"

text \<open>\<^verbatim>\<open>d.get(k, default)\<close> on a dict.\<close>

definition dict_get :: "pydict \<Rightarrow> string \<Rightarrow> json \<Rightarrow> json" where
  "dict_get d k dflt = (case map_of d k of None \<Rightarrow> dflt | Some v \<Rightarrow> v)"

text \<open>\<^verbatim>\<open>x.get(k, default)\<close> on any object: only a dict has the method.\<close>

fun py_get :: "json \<Rightarrow> string \<Rightarrow> json \<Rightarrow> py_error + json" where
  "py_get (JObj d) k dflt = Inr (dict_get d k dflt)"
| "py_get _ k dflt = Inl AttributeError"

section \<open>Strings\<close>

text \<open>
  \<^verbatim>\<open>str.lower\<close> on ASCII text: the letters A to Z are mapped to a to z, every other
  character is kept. Text outside ASCII is outside this model.
\<close>

definition lower_char :: "char \<Rightarrow> char" where
  "lower_char c =
     (case map_of (zip ''ABCDEFGHIJKLMNOPQRSTUVWXYZ'' ''abcdefghijklmnopqrstuvwxyz'') c of
        None \<Rightarrow> c
      | Some l \<Rightarrow> l)"

definition lower :: "string \<Rightarrow> string" where
  "lower s = map lower_char s"

text \<open>\<^verbatim>\<open>x.lower()\<close> on any object: only a str has the method.\<close>

fun py_lower :: "json \<Rightarrow> py_error + string" where
  "py_lower (JStr s) = Inr (lower s)"
| "py_lower _ = Inl AttributeError"

text \<open>\<^verbatim>\<open>kw in s\<close> for two strings: \<open>kw\<close> occurs in \<open>s\<close> as a contiguous piece.\<close>

fun contains :: "string \<Rightarrow> string \<Rightarrow> bool" where
  "contains kw [] = (kw = [])"
| "contains kw (c # cs) = (prefix kw (c # cs) \<or> contains kw cs)"

text \<open>\<^verbatim>\<open>any(keyword in s for keyword in kws)\<close>.\<close>

definition any_keyword_in :: "string list \<Rightarrow> string \<Rightarrow> bool" where
  "any_keyword_in kws s = list_ex (\<lambda>keyword. contains keyword s) kws"

section \<open>Classification rules\<close>

text \<open>
  \<^verbatim>\<open>get_timeout_config(node_name, url)\<close>. Both arguments come straight from the node,
  so they are arbitrary objects; \<^verbatim>\<open>node_name.lower()\<close> is evaluated first, then
  \<^verbatim>\<open>url.lower() if url else ""\<close>.
\<close>

definition get_timeout_config :: "json \<Rightarrow> json \<Rightarrow> py_error + int" where
  "get_timeout_config node_name url =
     (case py_lower node_name of
        Inl e \<Rightarrow> Inl e
      | Inr node_lower \<Rightarrow>
          (case (if truthy url then py_lower url else Inr []) of
             Inl e \<Rightarrow> Inl e
           | Inr url_lower \<Rightarrow>
               Inr (if any_keyword_in [''openai'', ''gpt'', ''ai'', ''ml''] node_lower then 30000
                    else if any_keyword_in [''email'', ''sendgrid'', ''mail''] node_lower then 15000
                    else if any_keyword_in [''webhook'', ''callback'', ''dashboard''] node_lower
                      then 15000
                    else if any_keyword_in
                        [''twitter'', ''facebook'', ''linkedin'', ''instagram''] url_lower
                      then 20000
                    else if contains ''slack'' node_lower \<or> contains ''slack'' url_lower
                      then 10000
                    else if any_keyword_in [''shopify'', ''amazon'', ''ebay''] url_lower
                      then 25000
                    else 15000)))"

definition retry_policy :: "int \<Rightarrow> int \<Rightarrow> json" where
  "retry_policy attempts wait =
     JObj [(''enabled'', JBool True), (''maxAttempts'', JInt attempts),
           (''waitBetween'', JInt wait)]"

text \<open>\<^verbatim>\<open>get_retry_config(node_name, url)\<close>; the lowered URL is computed and not used.\<close>

definition get_retry_config :: "json \<Rightarrow> json \<Rightarrow> py_error + json" where
  "get_retry_config node_name url =
     (case py_lower node_name of
        Inl e \<Rightarrow> Inl e
      | Inr node_lower \<Rightarrow>
          (case (if truthy url then py_lower url else Inr []) of
             Inl e \<Rightarrow> Inl e
           | Inr url_lower \<Rightarrow>
               Inr (if any_keyword_in [''critical'', ''important'', ''sync''] node_lower
                      then retry_policy 3 2000
                    else if any_keyword_in [''openai'', ''gpt'', ''ai''] node_lower
                      then retry_policy 2 3000
                    else if any_keyword_in [''notification'', ''alert'', ''email''] node_lower
                      then retry_policy 3 1000
                    else retry_policy 3 1500)))"

subsection \<open>The rule tables as the specification words them\<close>

text \<open>
  An ordered list of (predicate, result) pairs over the lowered name and the lowered URL;
  the first pair whose predicate holds gives the result, and the default applies when
  none does.
\<close>

fun first_match :: "(('a \<Rightarrow> bool) \<times> 'b) list \<Rightarrow> 'b \<Rightarrow> 'a \<Rightarrow> 'b" where
  "first_match [] dflt x = dflt"
| "first_match ((p, r) # rules) dflt x = (if p x then r else first_match rules dflt x)"

definition spec_timeout_rules :: "((string \<times> string \<Rightarrow> bool) \<times> int) list" where
  "spec_timeout_rules =
     [(\<lambda>(name, url). any_keyword_in [''openai'', ''gpt'', ''ai'', ''ml''] name, 30000),
      (\<lambda>(name, url). any_keyword_in [''email'', ''sendgrid'', ''mail''] name, 15000),
      (\<lambda>(name, url). any_keyword_in [''webhook'', ''callback'', ''dashboard''] name, 15000),
      (\<lambda>(name, url).
          any_keyword_in [''twitter'', ''facebook'', ''linkedin'', ''instagram''] url, 20000),
      (\<lambda>(name, url). contains ''slack'' name \<or> contains ''slack'' url, 10000),
      (\<lambda>(name, url). any_keyword_in [''shopify'', ''amazon'', ''ebay''] url, 25000)]"

definition spec_retry_rules :: "((string \<Rightarrow> bool) \<times> json) list" where
  "spec_retry_rules =
     [(any_keyword_in [''critical'', ''important'', ''sync''], retry_policy 3 2000),
      (any_keyword_in [''openai'', ''gpt'', ''ai''], retry_policy 2 3000),
      (any_keyword_in [''notification'', ''alert'', ''email''], retry_policy 3 1000)]"

section \<open>Exceptions and dynamic operations\<close>

text \<open>
  A computation that may raise returns \<open>Inl\<close> of the exception; \<open>bind\<close> runs the
  next statement only when the one before did not raise.
\<close>

definition bind :: "py_error + 'a \<Rightarrow> ('a \<Rightarrow> py_error + 'b) \<Rightarrow> py_error + 'b" where
  "bind r f = (case r of Inl e \<Rightarrow> Inl e | Inr v \<Rightarrow> f v)"

text \<open>\<^verbatim>\<open>x[k] = v\<close> with a string key: only a dict takes it.\<close>

fun py_setitem :: "json \<Rightarrow> string \<Rightarrow> json \<Rightarrow> py_error + json" where
  "py_setitem (JObj d) k v = Inr (JObj (AList.update k v d))"
| "py_setitem _ k v = Inl TypeError"

text \<open>\<^verbatim>\<open>x.copy()\<close>: dicts and lists have the method.\<close>

fun py_copy :: "json \<Rightarrow> py_error + json" where
  "py_copy (JObj d) = Inr (JObj d)"
| "py_copy (JList xs) = Inr (JList xs)"
| "py_copy _ = Inl AttributeError"

text \<open>\<^verbatim>\<open>for x in v\<close>: a list gives its elements, a dict its keys, a str its characters.\<close>

fun py_iter :: "json \<Rightarrow> py_error + json list" where
  "py_iter (JList xs) = Inr xs"
| "py_iter (JObj d) = Inr (map (\<lambda>(k, v). JStr k) d)"
| "py_iter (JStr s) = Inr (map (\<lambda>c. JStr [c]) s)"
| "py_iter _ = Inl TypeError"

text \<open>\<^verbatim>\<open>x >= n\<close> for an int \<open>n\<close>: numbers compare (a bool as 0 or 1), nothing else does.\<close>

fun py_ge :: "json \<Rightarrow> int \<Rightarrow> py_error + bool" where
  "py_ge (JInt t) n = Inr (n \<le> t)"
| "py_ge (JBool b) n = Inr (n \<le> (if b then 1 else 0))"
| "py_ge (JFloat m e) n =
     Inr (if 0 \<le> e then n \<le> m * 2 ^ nat e else n * 2 ^ nat (- e) \<le> m)"
| "py_ge _ n = Inl TypeError"

section \<open>Header normalizer\<close>

text \<open>
  One step of \<^verbatim>\<open>get_enhanced_headers\<close>: \<^verbatim>\<open>if k not in headers: headers[k] = v\<close>.
  On a list \<^verbatim>\<open>in\<close> is membership, and the assignment with a string index raises.
\<close>

fun add_default_header :: "string \<Rightarrow> string \<Rightarrow> json \<Rightarrow> py_error + json" where
  "add_default_header k v (JObj d) =
     Inr (JObj (if map_of d k = None then AList.update k (JStr v) d else d))"
| "add_default_header k v (JList xs) =
     (if JStr k \<in> set xs then Inr (JList xs) else Inl TypeError)"
| "add_default_header k v (JStr s) =
     (if contains k s then Inr (JStr s) else Inl TypeError)"
| "add_default_header k v _ = Inl TypeError"

definition get_enhanced_headers :: "json \<Rightarrow> json \<Rightarrow> py_error + json" where
  "get_enhanced_headers existing_headers url =
     bind (if truthy existing_headers then py_copy existing_headers else Inr (JObj []))
       (\<lambda>headers.
     bind (add_default_header ''User-Agent'' ''n8n-workflow/1.0'' headers) (\<lambda>headers.
     bind (add_default_header ''Content-Type'' ''application/json'' headers) (\<lambda>headers.
     bind (add_default_header ''Accept'' ''application/json, text/plain, */*'' headers)
       (\<lambda>headers.
     add_default_header ''Connection'' ''keep-alive'' headers))))"

section \<open>Node enhancer\<close>

definition http_request_type :: json where
  "http_request_type = JStr ''n8n-nodes-base.httpRequest''"

definition response_config :: json where
  "response_config = JObj [(''response'', JObj [(''neverError'', JBool False)])]"

definition redirect_config :: json where
  "redirect_config = JObj [(''followRedirects'', JBool True), (''maxRedirects'', JInt 3)]"

text \<open>
  \<^verbatim>\<open>enhance_http_node(node)\<close> changes the node in place and returns a flag; the model
  returns the node after the call together with the flag. \<^verbatim>\<open>parameters\<close> and
  \<^verbatim>\<open>options\<close> are the node's own sub-dicts when present (the document is a tree, so
  nothing else shares them) and fresh empty dicts otherwise. When a statement raises, the
  only caller drops the whole document, so no node is returned then.
\<close>

definition enhance_http_node :: "pydict \<Rightarrow> py_error + (pydict \<times> bool)" where
  "enhance_http_node node =
     (if dict_get node ''type'' JNull \<noteq> http_request_type then Inr (node, False)
      else
        let parameters = dict_get node ''parameters'' (JObj []);
            node_name = dict_get node ''name'' (JStr ''HTTP Request'')
        in
        bind (py_get parameters ''url'' (JStr [])) (\<lambda>url.
        bind (py_get parameters ''options'' (JObj [])) (\<lambda>options.
        bind (get_timeout_config node_name url) (\<lambda>timeout.
        bind (py_setitem options ''timeout'' (JInt timeout)) (\<lambda>options.
        bind (get_retry_config node_name url) (\<lambda>retry_config.
        bind (py_setitem options ''retry'' retry_config) (\<lambda>options.
        bind (py_setitem options ''response'' response_config) (\<lambda>options.
        bind (py_setitem options ''redirect'' redirect_config) (\<lambda>options.
        bind (py_get parameters ''headers'' (JObj [])) (\<lambda>existing_headers.
        bind (get_enhanced_headers existing_headers url) (\<lambda>enhanced_headers.
        bind (py_setitem parameters ''headers'' enhanced_headers) (\<lambda>parameters.
        bind (py_setitem parameters ''options'' options) (\<lambda>parameters.
        Inr (AList.update ''onError'' (JStr ''continueRegularOutput'')
               (AList.update ''parameters'' parameters node), True))))))))))))))"

section \<open>Auxiliary node generator\<close>

text \<open>The two inline scripts, as the program carries them: constant text.\<close>

definition error_handler_js :: string where
  \<open>error_handler_js =
     ''
// Global Error Handler for HTTP Requests
const items = [];

// Check if this is an error from an HTTP request
const isHttpError = $json.error && ($json.error.httpCode || $json.error.message);

if (isHttpError) {
    const errorInfo = {
        timestamp: new Date().toISOString(),
        error_type: 'http_request_error',
        node_name: $json.node?.name || 'Unknown Node',
        http_code: $json.error.httpCode || null,
        error_message: $json.error.message || 'Unknown error',
        retry_count: $json.error.retryCount || 0,
        url: $json.error.config?.url || 'Unknown URL',
        method: $json.error.config?.method || 'Unknown Method'
    };
    
    // Determine error severity
    const httpCode = errorInfo.http_code;
    let severity = 'medium';
    let shouldRetry = true;
    let fallbackAction = 'log_and_continue';
    
    if (httpCode) {
        if (httpCode >= 500) {
            severity = 'high';
            fallbackAction = 'retry_with_delay';
        } else if (httpCode === 429) {
            severity = 'medium';
            fallbackAction = 'retry_with_exponential_backoff';
        } else if (httpCode === 404) {
            severity = 'low';
            shouldRetry = false;
            fallbackAction = 'use_fallback_data';
        } else if (httpCode >= 400) {
            severity = 'medium';
            shouldRetry = false;
            fallbackAction = 'log_and_continue';
        }
    }
    
    // Create error response
    const errorResponse = {
        ...errorInfo,
        severity: severity,
        should_retry: shouldRetry,
        fallback_action: fallbackAction,
        recommendations: [
            httpCode === 429 ? 'Rate limited - consider implementing exponential backoff' : null,
            httpCode >= 500 ? 'Server error - check API status and retry' : null,
            httpCode === 404 ? 'Resource not found - verify URL and parameters' : null,
            httpCode >= 400 && httpCode < 500 ? 'Client error - check request parameters' : null
        ].filter(Boolean)
    };
    
    items.push(errorResponse);
} else {
    // Not an HTTP error, pass through
    items.push($json);
}

return items;
''\<close>

definition fallback_js :: string where
  \<open>fallback_js =
     ''
// Fallback Data Provider
const items = [];

// Generate fallback data based on the failed operation
const errorInfo = $json;
const nodeName = errorInfo.node_name || '' @ [CHR 0x27, CHR 0x27] @
     '';

let fallbackData = {
    status: 'fallback_data',
    timestamp: new Date().toISOString(),
    original_node: nodeName,
    message: 'Using fallback data due to API failure'
};

// Provide specific fallback data based on node type
if (nodeName.toLowerCase().includes('ai') || nodeName.toLowerCase().includes('openai')) {
    fallbackData.recommendations = [
        {
            title: 'API Unavailable - Review Manually',
            description: 'The AI service is currently unavailable. Please review this request manually.',
            priority: 'high',
            category: 'system'
        }
    ];
} else if (nodeName.toLowerCase().includes('email') || nodeName.toLowerCase().includes('notification')) {
    fallbackData.notification_status = 'failed';
    fallbackData.retry_scheduled = true;
    fallbackData.retry_time = new Date(Date.now() + 300000).toISOString(); // 5 minutes
} else if (nodeName.toLowerCase().includes('data') || nodeName.toLowerCase().includes('fetch')) {
    fallbackData.data = {};
    fallbackData.cached_data_used = true;
} else {
    fallbackData.generic_fallback = true;
}

items.push(fallbackData);
return items;
''\<close>

definition error_handler_node :: json where
  "error_handler_node =
     JObj [(''parameters'', JObj [(''jsCode'', JStr error_handler_js)]),
           (''id'', JStr ''global-http-error-handler''),
           (''name'', JStr ''Global HTTP Error Handler''),
           (''type'', JStr ''n8n-nodes-base.code''),
           (''typeVersion'', JInt 2),
           (''position'', JList [JInt 1800, JInt 300])]"

definition fallback_node :: json where
  "fallback_node =
     JObj [(''parameters'', JObj [(''jsCode'', JStr fallback_js)]),
           (''id'', JStr ''fallback-data-provider''),
           (''name'', JStr ''Fallback Data Provider''),
           (''type'', JStr ''n8n-nodes-base.code''),
           (''typeVersion'', JInt 2),
           (''position'', JList [JInt 2000, JInt 300])]"

text \<open>
  The comprehension \<^verbatim>\<open>[node for node in ... if node.get('type') == ...]\<close>: every
  element is asked for its type, so an element that is not a dict raises.
\<close>

fun http_nodes_of :: "json list \<Rightarrow> py_error + json list" where
  "http_nodes_of [] = Inr []"
| "http_nodes_of (node # rest) =
     (case py_get node ''type'' JNull of
        Inl e \<Rightarrow> Inl e
      | Inr t \<Rightarrow>
          (case http_nodes_of rest of
             Inl e \<Rightarrow> Inl e
           | Inr found \<Rightarrow> Inr (if t = http_request_type then node # found else found)))"

definition add_error_handling_nodes :: "json \<Rightarrow> py_error + json list" where
  "add_error_handling_nodes workflow =
     bind (py_get workflow ''nodes'' (JList [])) (\<lambda>nodes.
     bind (py_iter nodes) (\<lambda>items.
     bind (http_nodes_of items) (\<lambda>http_nodes.
     Inr (if http_nodes = [] then [] else [error_handler_node, fallback_node]))))"

section \<open>Workflow processor\<close>

record improvements =
  file_name :: string
  http_nodes_enhanced :: nat
  error_nodes_added :: nat
  timeout_configurations :: "(json \<times> json \<times> string) list"
  retry_configurations :: "(json \<times> json \<times> json) list"
  specific_improvements :: "string list"

text \<open>
  What \<^verbatim>\<open>enhance_workflow\<close> returns: the improvements of a file, or the file name with
  the exception that was caught (the program stores its message \<^verbatim>\<open>str(e)\<close>).
\<close>

datatype summary =
    Improved improvements
  | Failed string py_error

definition get_timeout_reason :: "json \<Rightarrow> py_error + string" where
  "get_timeout_reason timeout =
     bind (py_ge timeout 30000) (\<lambda>b.
       if b then Inr ''Extended timeout for AI/ML operations''
       else bind (py_ge timeout 25000) (\<lambda>b.
         if b then Inr ''Long timeout for e-commerce API operations''
         else bind (py_ge timeout 20000) (\<lambda>b.
           if b then Inr ''Medium timeout for social media APIs''
           else bind (py_ge timeout 15000) (\<lambda>b.
             if b then Inr ''Standard timeout for webhook/dashboard operations''
             else Inr ''Quick timeout for simple operations''))))"

definition get_specific_improvement :: "json \<Rightarrow> json \<Rightarrow> py_error + string" where
  "get_specific_improvement node_name url =
     bind (py_lower node_name) (\<lambda>node_lower.
     bind (if truthy url then py_lower url else Inr []) (\<lambda>url_lower.
     Inr (if contains ''openai'' node_lower \<or> contains ''gpt'' node_lower
            then ''Added cost-aware retry logic for AI API calls''
          else if contains ''email'' node_lower \<or> contains ''sendgrid'' node_lower
            then ''Enhanced email delivery reliability with retry logic''
          else if contains ''slack'' node_lower \<or> contains ''slack'' url_lower
            then ''Improved Slack notification reliability''
          else if any_keyword_in [''shopify'', ''amazon'', ''ebay''] url_lower
            then ''Added robust error handling for e-commerce API integration''
          else if contains ''webhook'' node_lower \<or> contains ''callback'' node_lower
            then ''Enhanced webhook reliability with proper timeout and retry''
          else ''Added comprehensive error handling and retry logic'')))"

text \<open>
  The body of \<^verbatim>\<open>if self.enhance_http_node(node):\<close> in the loop of
  \<^verbatim>\<open>enhance_workflow\<close>: the values are read back from the node just enhanced.
\<close>

definition record_improvement :: "pydict \<Rightarrow> improvements \<Rightarrow> py_error + improvements" where
  "record_improvement node imp =
     (let node_name = dict_get node ''name'' (JStr ''HTTP Request'');
          parameters = dict_get node ''parameters'' (JObj [])
      in
      bind (py_get parameters ''url'' (JStr [])) (\<lambda>url.
      bind (py_get parameters ''options'' (JObj [])) (\<lambda>options.
      bind (py_get options ''timeout'' (JInt 15000)) (\<lambda>timeout.
      bind (py_get options ''retry'' (JObj [])) (\<lambda>retry_config.
      bind (get_timeout_reason timeout) (\<lambda>reason.
      bind (py_get retry_config ''maxAttempts'' (JInt 3)) (\<lambda>max_attempts.
      bind (py_get retry_config ''waitBetween'' (JInt 1500)) (\<lambda>wait_between.
      bind (get_specific_improvement node_name url) (\<lambda>specific.
      Inr (imp\<lparr>http_nodes_enhanced := http_nodes_enhanced imp + 1,
                timeout_configurations :=
                  timeout_configurations imp @ [(node_name, timeout, reason)],
                retry_configurations :=
                  retry_configurations imp @ [(node_name, max_attempts, wait_between)],
                specific_improvements := specific_improvements imp @ [specific]\<rparr>))))))))))"

text \<open>One round of the loop \<^verbatim>\<open>for node in nodes\<close>.\<close>

definition enhance_one :: "json \<Rightarrow> improvements \<Rightarrow> py_error + (json \<times> improvements)" where
  "enhance_one node imp =
     (case node of
        JObj d \<Rightarrow>
          bind (enhance_http_node d) (\<lambda>(d', enhanced).
          bind (if enhanced then record_improvement d' imp else Inr imp) (\<lambda>imp'.
          Inr (JObj d', imp')))
      | _ \<Rightarrow> Inl AttributeError)"

fun enhance_nodes :: "json list \<Rightarrow> improvements \<Rightarrow> py_error + (json list \<times> improvements)" where
  "enhance_nodes [] imp = Inr ([], imp)"
| "enhance_nodes (node # rest) imp =
     (case enhance_one node imp of
        Inl e \<Rightarrow> Inl e
      | Inr (node', imp') \<Rightarrow>
          (case enhance_nodes rest imp' of
             Inl e \<Rightarrow> Inl e
           | Inr (rest', imp'') \<Rightarrow> Inr (node' # rest', imp'')))"

text \<open>
  The document after the loop: the nodes were changed in place, so a document whose
  \<^verbatim>\<open>nodes\<close> entry is a list holds the enhanced nodes; any other document is as before.
\<close>

definition store_nodes :: "json \<Rightarrow> json list \<Rightarrow> json" where
  "store_nodes workflow items =
     (case workflow of
        JObj w \<Rightarrow>
          (case map_of w ''nodes'' of
             Some (JList old) \<Rightarrow> JObj (AList.update ''nodes'' (JList items) w)
           | _ \<Rightarrow> workflow)
      | _ \<Rightarrow> workflow)"

text \<open>\<^verbatim>\<open>x[k]\<close> with a string key, and \<^verbatim>\<open>x.extend(ys)\<close>.\<close>

fun py_getitem :: "json \<Rightarrow> string \<Rightarrow> py_error + json" where
  "py_getitem (JObj d) k = (case map_of d k of None \<Rightarrow> Inl KeyError | Some v \<Rightarrow> Inr v)"
| "py_getitem _ k = Inl TypeError"

fun py_extend :: "json \<Rightarrow> json list \<Rightarrow> py_error + json" where
  "py_extend (JList xs) ys = Inr (JList (xs @ ys))"
| "py_extend _ ys = Inl AttributeError"

text \<open>
  The files the program reads and writes. A path holds a JSON document or text that
  \<^verbatim>\<open>json.load\<close> rejects, or nothing; a path in \<open>read_only\<close> cannot be opened for
  writing, which is the one way a write fails here (a write that breaks off half-way and
  leaves a damaged file is not modelled). \<open>workflow_files\<close> is what
  \<^verbatim>\<open>glob.glob\<close> returns for the directory.
\<close>

datatype stored = Document json | Malformed

record env =
  documents :: "string \<rightharpoonup> stored"
  read_only :: "string set"
  workflow_files :: "string list"

definition load :: "env \<Rightarrow> string \<Rightarrow> py_error + json" where
  "load e path =
     (case documents e path of
        None \<Rightarrow> Inl FileNotFoundError
      | Some Malformed \<Rightarrow> Inl JSONDecodeError
      | Some (Document j) \<Rightarrow> Inr j)"

definition persist :: "env \<Rightarrow> string \<Rightarrow> json \<Rightarrow> py_error + env" where
  "persist e path j =
     (if path \<in> read_only e then Inl PermissionError
      else Inr (e\<lparr>documents := (documents e)(path \<mapsto> Document j)\<rparr>))"

text \<open>\<^verbatim>\<open>os.path.basename\<close>: what follows the last slash.\<close>

definition basename :: "string \<Rightarrow> string" where
  "basename path = rev (takeWhile (\<lambda>c. c \<noteq> CHR ''/'') (rev path))"

text \<open>The statements inside \<^verbatim>\<open>try:\<close> of \<^verbatim>\<open>enhance_workflow\<close>.\<close>

definition enhance_workflow_body :: "env \<Rightarrow> string \<Rightarrow> py_error + (env \<times> improvements)" where
  "enhance_workflow_body e workflow_path =
     bind (load e workflow_path) (\<lambda>workflow.
     let imp0 = \<lparr>file_name = basename workflow_path, http_nodes_enhanced = 0,
                 error_nodes_added = 0, timeout_configurations = [],
                 retry_configurations = [], specific_improvements = []\<rparr>
     in
     bind (py_get workflow ''nodes'' (JList [])) (\<lambda>nodes.
     bind (py_iter nodes) (\<lambda>items.
     bind (enhance_nodes items imp0) (\<lambda>(items', imp).
     let workflow = store_nodes workflow items' in
     bind (add_error_handling_nodes workflow) (\<lambda>error_nodes.
     bind (py_getitem workflow ''nodes'') (\<lambda>nodes.
     bind (py_extend nodes error_nodes) (\<lambda>nodes.
     bind (py_setitem workflow ''nodes'' nodes) (\<lambda>workflow.
     bind (persist e workflow_path workflow) (\<lambda>e'.
     Inr (e', imp\<lparr>error_nodes_added := length error_nodes\<rparr>))))))))))"

text \<open>
  \<^verbatim>\<open>enhance_workflow\<close>: \<^verbatim>\<open>except Exception as e\<close> turns every exception of the body
  into the failure summary; the files are then as they were.
\<close>

definition enhance_workflow :: "env \<Rightarrow> string \<Rightarrow> env \<times> summary" where
  "enhance_workflow e workflow_path =
     (case enhance_workflow_body e workflow_path of
        Inr (e', imp) \<Rightarrow> (e', Improved imp)
      | Inl err \<Rightarrow> (e, Failed (basename workflow_path) err))"

section \<open>Batch driver\<close>

text \<open>The loop \<^verbatim>\<open>for workflow_file in workflow_files\<close> of \<^verbatim>\<open>enhance_all_workflows\<close>.\<close>

fun enhance_files :: "env \<Rightarrow> string list \<Rightarrow> env \<times> summary list" where
  "enhance_files e [] = (e, [])"
| "enhance_files e (workflow_file # rest) =
     (case enhance_workflow e workflow_file of
        (e1, s) \<Rightarrow> (case enhance_files e1 rest of (e2, ss) \<Rightarrow> (e2, s # ss)))"

definition enhance_all_workflows :: "env \<Rightarrow> env \<times> summary list" where
  "enhance_all_workflows e =
     (if workflow_files e = [] then (e, []) else enhance_files e (workflow_files e))"

section \<open>Words of the specification\<close>

text \<open>The four default headers, as the specification lists them.\<close>

definition default_headers :: "(string \<times> string) list" where
  "default_headers =
     [(''User-Agent'', ''n8n-workflow/1.0''),
      (''Content-Type'', ''application/json''),
      (''Accept'', ''application/json, text/plain, */*''),
      (''Connection'', ''keep-alive'')]"

text \<open>The value the caller's own header mapping of a node gives for a key, if any.\<close>

definition caller_header :: "pydict \<Rightarrow> string \<Rightarrow> json option" where
  "caller_header node k =
     (case dict_get node ''parameters'' (JObj []) of
        JObj parameters \<Rightarrow>
          (case dict_get parameters ''headers'' (JObj []) of
             JObj headers \<Rightarrow> map_of headers k
           | _ \<Rightarrow> None)
      | _ \<Rightarrow> None)"

text \<open>A list that holds the names of all four default headers.\<close>

definition header_names_in :: "json list \<Rightarrow> bool" where
  "header_names_in xs = list_all (\<lambda>(k, v). JStr k \<in> set xs) default_headers"

text \<open>
  The entries the enhancer accepts without raising: the name is absent or a string; the parameters are absent or a mapping; inside them the URL is
  absent, a string or a false value, the options are absent or a mapping, and the headers
  are absent, a mapping, a false value, or a list that holds all four header names.
\<close>

definition well_formed_node :: "pydict \<Rightarrow> bool" where
  "well_formed_node node =
     (case dict_get node ''name'' (JStr ''HTTP Request'') of
        JStr name \<Rightarrow>
          (case dict_get node ''parameters'' (JObj []) of
             JObj parameters \<Rightarrow>
               (case dict_get parameters ''url'' (JStr []) of
                  JStr url \<Rightarrow> True
                | url \<Rightarrow> \<not> truthy url)
               \<and> (case dict_get parameters ''options'' (JObj []) of
                    JObj options \<Rightarrow> True
                  | _ \<Rightarrow> False)
               \<and> (case dict_get parameters ''headers'' (JObj []) of
                    JObj headers \<Rightarrow> True
                  | JList xs \<Rightarrow> xs = [] \<or> header_names_in xs
                  | headers \<Rightarrow> \<not> truthy headers)
           | _ \<Rightarrow> False)
      | _ \<Rightarrow> False)"

text \<open>The value reached from a document by a path of keys, as in \<^verbatim>\<open>a.b.c\<close>.\<close>

fun lookup_path :: "json \<Rightarrow> string list \<Rightarrow> json option" where
  "lookup_path j [] = Some j"
| "lookup_path (JObj d) (k # ks) =
     (case map_of d k of None \<Rightarrow> None | Some v \<Rightarrow> lookup_path v ks)"
| "lookup_path _ (k # ks) = None"

text \<open>A node of a document that is an HTTP-request node.\<close>

definition is_http_node :: "json \<Rightarrow> bool" where
  "is_http_node node =
     (case node of JObj d \<Rightarrow> dict_get d ''type'' JNull = http_request_type | _ \<Rightarrow> False)"

text \<open>The summary \<^verbatim>\<open>enhance_workflow\<close> starts from, and the nodes it appends.\<close>

definition initial_improvements :: "string \<Rightarrow> improvements" where
  "initial_improvements workflow_path =
     \<lparr>file_name = basename workflow_path, http_nodes_enhanced = 0,
      error_nodes_added = 0, timeout_configurations = [],
      retry_configurations = [], specific_improvements = []\<rparr>"

definition appended_nodes :: "json list \<Rightarrow> json list" where
  "appended_nodes nodes =
     (if list_ex is_http_node nodes then [error_handler_node, fallback_node] else [])"

text \<open>The file name a summary carries.\<close>

definition summary_file :: "summary \<Rightarrow> string" where
  "summary_file s = (case s of Improved imp \<Rightarrow> file_name imp | Failed f err \<Rightarrow> f)"

section \<open>Example documents\<close>

text \<open>An HTTP-request node of a workflow, used to run the definitions.\<close>

definition example_http_node :: pydict where
  "example_http_node =
     [(''id'', JStr ''7''), (''name'', JStr ''Notify Team''),
      (''type'', JStr ''n8n-nodes-base.httpRequest''), (''typeVersion'', JInt 4),
      (''position'', JList [JInt 100, JInt 200]),
      (''parameters'', JObj [(''url'', JStr ''https://hooks.slack.com/services/T0''),
         (''headers'', JObj [(''User-Agent'', JStr ''custom'')])]),
      (''credentials'', JObj [])]"

definition example_http_node_enhanced :: pydict where
  "example_http_node_enhanced =
     [(''id'', JStr ''7''), (''name'', JStr ''Notify Team''),
      (''type'', JStr ''n8n-nodes-base.httpRequest''), (''typeVersion'', JInt 4),
      (''position'', JList [JInt 100, JInt 200]),
      (''parameters'',
        JObj [(''url'', JStr ''https://hooks.slack.com/services/T0''),
              (''headers'',
                JObj [(''User-Agent'', JStr ''custom''),
                      (''Content-Type'', JStr ''application/json''),
                      (''Accept'', JStr ''application/json, text/plain, */*''),
                      (''Connection'', JStr ''keep-alive'')]),
              (''options'',
                JObj [(''timeout'', JInt 10000),
                      (''retry'',
                        JObj [(''enabled'', JBool True), (''maxAttempts'', JInt 3),
                              (''waitBetween'', JInt 1500)]),
                      (''response'',
                        JObj [(''response'', JObj [(''neverError'', JBool False)])]),
                      (''redirect'',
                        JObj [(''followRedirects'', JBool True),
                              (''maxRedirects'', JInt 3)])])]),
      (''credentials'', JObj []),
      (''onError'', JStr ''continueRegularOutput'')]"

text \<open>
  A directory with two workflow files: one that does not parse, and one document with the
  HTTP-request node above.
\<close>

definition example_env :: env where
  "example_env =
     \<lparr>documents =
        [''n8n-workflows/broken.json'' \<mapsto> Malformed,
         ''n8n-workflows/notify.json'' \<mapsto>
           Document (JObj [(''name'', JStr ''Notify''),
                           (''nodes'', JList [JObj example_http_node])])],
      read_only = {},
      workflow_files = [''n8n-workflows/broken.json'', ''n8n-workflows/notify.json'']\<rparr>"

section \<open>Strings: basic facts\<close>

lemma contains_iff_sublist: "contains kw s = sublist kw s"
  by (induction s) (simp_all add: sublist_Cons_right)

lemma lower_Nil: "lower [] = []"
  by (simp add: lower_def)

section \<open>Timeout selection\<close>

text \<open>
  C1. For a node whose name and URL are strings, the timeout is the result of the first
  rule of the ordered table that matches the lowered name and lowered URL (AI/ML name
  keywords 30000, e-mail name keywords 15000, webhook name keywords 15000, social-media
  URL keywords 20000, slack in name or URL 10000, e-commerce URL keywords 25000), and
  15000 when no rule matches. The node named "Fetch OpenAI Completion" with URL
  "https://api.openai.com/v1/..." gets 30000.
\<close>

theorem timeout_first_matching_rule:
  "get_timeout_config (JStr name) (JStr url)
     = Inr (first_match spec_timeout_rules 15000 (lower name, lower url))
   \<and> get_timeout_config (JStr ''Fetch OpenAI Completion'')
         (JStr ''https://api.openai.com/v1/...'') = Inr 30000"
proof
  show "get_timeout_config (JStr name) (JStr url)
     = Inr (first_match spec_timeout_rules 15000 (lower name, lower url))"
    by (cases "url = []") (simp_all add: get_timeout_config_def spec_timeout_rules_def lower_Nil)
  show "get_timeout_config (JStr ''Fetch OpenAI Completion'')
         (JStr ''https://api.openai.com/v1/...'') = Inr 30000"
    by (simp add: get_timeout_config_def any_keyword_in_def lower_def lower_char_def)
qed

section \<open>Retry selection\<close>

text \<open>
  C2. For a node whose name and URL are strings, the retry policy is the result of the
  first rule of its own ordered table that matches the lowered name
  (critical/important/sync: 3 attempts, 2000 ms; AI keywords: 2 attempts, 3000 ms;
  notification/alert/email: 3 attempts, 1000 ms), and 3 attempts with 1500 ms when no
  rule matches. The URL plays no part. The node named "critical-openai-sync" matches the
  AI keywords too, and still gets the policy of the critical rule.
\<close>

theorem retry_first_matching_rule:
  "get_retry_config (JStr name) (JStr url)
     = Inr (first_match spec_retry_rules (retry_policy 3 1500) (lower name))
   \<and> get_retry_config (JStr ''critical-openai-sync'') (JStr url) = Inr (retry_policy 3 2000)
   \<and> any_keyword_in [''openai'', ''gpt'', ''ai''] (lower ''critical-openai-sync'')"
proof (intro conjI)
  show "get_retry_config (JStr name) (JStr url)
     = Inr (first_match spec_retry_rules (retry_policy 3 1500) (lower name))"
    by (cases "url = []") (simp_all add: get_retry_config_def spec_retry_rules_def)
  show "get_retry_config (JStr ''critical-openai-sync'') (JStr url) = Inr (retry_policy 3 2000)"
    by (cases "url = []")
      (simp_all add: get_retry_config_def any_keyword_in_def lower_def lower_char_def)
  show "any_keyword_in [''openai'', ''gpt'', ''ai''] (lower ''critical-openai-sync'')"
    by (simp add: any_keyword_in_def lower_def lower_char_def)
qed

lemma email_contains_ai: "contains ''email'' s \<Longrightarrow> contains ''ai'' s"
proof -
  have "sublist ''ai'' ''email''"
    by (simp add: contains_iff_sublist [symmetric])
  moreover assume "contains ''email'' s"
  ultimately show ?thesis
    unfolding contains_iff_sublist by (rule sublist_order.order.trans)
qed

lemma email_keyword_unreachable:
  "contains ''email'' (lower name)
     \<Longrightarrow> any_keyword_in [''openai'', ''gpt'', ''ai''] (lower name)"
  by (simp add: any_keyword_in_def email_contains_ai)

text \<open>
  C3. The claim expects the notification policy, 3 attempts and 1000 ms, for the node
  named "Send Email": the name contains "email", a keyword of the notification rule, and
  none of critical, important, sync. The code returns the AI policy, 2 attempts and
  3000 ms, since "ai" stands inside "email" and the AI rule is tried first; by the lemma
  above no name reaches the notification rule through its "email" keyword. The improvement
  text of the same node is the one for e-mail, not the one for AI calls.
\<close>

theorem send_email_gets_ai_retry:
  "contains ''email'' (lower ''Send Email'')
   \<and> \<not> any_keyword_in [''critical'', ''important'', ''sync''] (lower ''Send Email'')
   \<and> get_retry_config (JStr ''Send Email'') (JStr [])
       = Inr (JObj [(''enabled'', JBool True), (''maxAttempts'', JInt 2),
                    (''waitBetween'', JInt 3000)])
   \<and> get_retry_config (JStr ''Send Email'') (JStr []) \<noteq> Inr (retry_policy 3 1000)
   \<and> get_specific_improvement (JStr ''Send Email'') (JStr [])
       = Inr ''Enhanced email delivery reliability with retry logic''"
  by (simp add: get_retry_config_def get_specific_improvement_def bind_def
      any_keyword_in_def lower_def lower_char_def retry_policy_def)

section \<open>Exceptions: basic facts\<close>

lemma bind_Inr_iff: "bind r f = Inr y \<longleftrightarrow> (\<exists>v. r = Inr v \<and> f v = Inr y)"
  by (cases r) (simp_all add: bind_def)

lemma bind_Inr: "bind (Inr v) f = f v"
  by (simp add: bind_def)

lemma py_get_Inr_iff: "py_get j k dflt = Inr v \<longleftrightarrow> (\<exists>d. j = JObj d \<and> v = dict_get d k dflt)"
  by (cases j) auto

lemma py_setitem_Inr_iff:
  "py_setitem j k v = Inr j' \<longleftrightarrow> (\<exists>d. j = JObj d \<and> j' = JObj (AList.update k v d))"
  by (cases j) auto

section \<open>Header merge\<close>

lemma update_absent: "map_of d k = None \<Longrightarrow> AList.update k v d = d @ [(k, v)]"
  by (induction d) (auto split: if_splits)

lemma add_default_header_dict:
  "\<exists>d'. add_default_header k v (JObj d) = Inr (JObj d') \<and> prefix d d'
     \<and> (\<forall>k' c. map_of d k' = Some c \<longrightarrow> map_of d' k' = Some c)
     \<and> (map_of d k = None \<longrightarrow> map_of d' k = Some (JStr v))
     \<and> (\<forall>k'. k' \<noteq> k \<longrightarrow> map_of d' k' = map_of d k')"
proof (cases "map_of d k")
  case None
  then have "add_default_header k v (JObj d) = Inr (JObj (AList.update k (JStr v) d))"
    by simp
  moreover have "prefix d (AList.update k (JStr v) d)"
    using None by (simp add: update_absent)
  moreover have "map_of (AList.update k (JStr v) d) = (map_of d)(k \<mapsto> JStr v)"
    by (simp add: update_conv')
  ultimately show ?thesis
    using None by auto
next
  case (Some c)
  then have "add_default_header k v (JObj d) = Inr (JObj d)"
    by simp
  then show ?thesis
    using Some by auto
qed

lemma get_enhanced_headers_start:
  "(if truthy (JObj d) then py_copy (JObj d) else Inr (JObj [])) = Inr (JObj d)"
  by simp

lemma merge_into_dict:
  "\<exists>merged. get_enhanced_headers (JObj existing) url = Inr (JObj merged)
     \<and> prefix existing merged
     \<and> (\<forall>k v. map_of existing k = Some v \<longrightarrow> map_of merged k = Some v)
     \<and> (\<forall>(k, v) \<in> set default_headers.
           map_of existing k = None \<longrightarrow> map_of merged k = Some (JStr v))
     \<and> (\<forall>k. map_of existing k = None \<and> k \<notin> fst ` set default_headers
           \<longrightarrow> map_of merged k = None)"
proof -
  from add_default_header_dict [of "''User-Agent''" "''n8n-workflow/1.0''" existing]
  obtain d1 where f1: "add_default_header ''User-Agent'' ''n8n-workflow/1.0'' (JObj existing)
        = Inr (JObj d1) \<and> prefix existing d1
     \<and> (\<forall>k' c. map_of existing k' = Some c \<longrightarrow> map_of d1 k' = Some c)
     \<and> (map_of existing ''User-Agent'' = None
           \<longrightarrow> map_of d1 ''User-Agent'' = Some (JStr ''n8n-workflow/1.0''))
     \<and> (\<forall>k'. k' \<noteq> ''User-Agent'' \<longrightarrow> map_of d1 k' = map_of existing k')" ..
  from add_default_header_dict [of "''Content-Type''" "''application/json''" d1]
  obtain d2 where f2: "add_default_header ''Content-Type'' ''application/json'' (JObj d1)
        = Inr (JObj d2) \<and> prefix d1 d2
     \<and> (\<forall>k' c. map_of d1 k' = Some c \<longrightarrow> map_of d2 k' = Some c)
     \<and> (map_of d1 ''Content-Type'' = None
           \<longrightarrow> map_of d2 ''Content-Type'' = Some (JStr ''application/json''))
     \<and> (\<forall>k'. k' \<noteq> ''Content-Type'' \<longrightarrow> map_of d2 k' = map_of d1 k')" ..
  from add_default_header_dict [of "''Accept''" "''application/json, text/plain, */*''" d2]
  obtain d3 where f3: "add_default_header ''Accept'' ''application/json, text/plain, */*''
        (JObj d2) = Inr (JObj d3) \<and> prefix d2 d3
     \<and> (\<forall>k' c. map_of d2 k' = Some c \<longrightarrow> map_of d3 k' = Some c)
     \<and> (map_of d2 ''Accept'' = None
           \<longrightarrow> map_of d3 ''Accept'' = Some (JStr ''application/json, text/plain, */*''))
     \<and> (\<forall>k'. k' \<noteq> ''Accept'' \<longrightarrow> map_of d3 k' = map_of d2 k')" ..
  from add_default_header_dict [of "''Connection''" "''keep-alive''" d3]
  obtain d4 where f4: "add_default_header ''Connection'' ''keep-alive'' (JObj d3)
        = Inr (JObj d4) \<and> prefix d3 d4
     \<and> (\<forall>k' c. map_of d3 k' = Some c \<longrightarrow> map_of d4 k' = Some c)
     \<and> (map_of d3 ''Connection'' = None
           \<longrightarrow> map_of d4 ''Connection'' = Some (JStr ''keep-alive''))
     \<and> (\<forall>k'. k' \<noteq> ''Connection'' \<longrightarrow> map_of d4 k' = map_of d3 k')" ..
  note s1 = f1 [THEN conjunct1] and s2 = f2 [THEN conjunct1]
    and s3 = f3 [THEN conjunct1] and s4 = f4 [THEN conjunct1]
  note p1 = f1 [THEN conjunct2, THEN conjunct1] and p2 = f2 [THEN conjunct2, THEN conjunct1]
    and p3 = f3 [THEN conjunct2, THEN conjunct1] and p4 = f4 [THEN conjunct2, THEN conjunct1]
  note k1 = f1 [THEN conjunct2, THEN conjunct2, THEN conjunct1, rule_format]
    and k2 = f2 [THEN conjunct2, THEN conjunct2, THEN conjunct1, rule_format]
    and k3 = f3 [THEN conjunct2, THEN conjunct2, THEN conjunct1, rule_format]
    and k4 = f4 [THEN conjunct2, THEN conjunct2, THEN conjunct1, rule_format]
  note a1 = f1 [THEN conjunct2, THEN conjunct2, THEN conjunct2, THEN conjunct1, rule_format]
    and a2 = f2 [THEN conjunct2, THEN conjunct2, THEN conjunct2, THEN conjunct1, rule_format]
    and a3 = f3 [THEN conjunct2, THEN conjunct2, THEN conjunct2, THEN conjunct1, rule_format]
    and a4 = f4 [THEN conjunct2, THEN conjunct2, THEN conjunct2, THEN conjunct1, rule_format]
  note o1 = f1 [THEN conjunct2, THEN conjunct2, THEN conjunct2, THEN conjunct2, rule_format]
    and o2 = f2 [THEN conjunct2, THEN conjunct2, THEN conjunct2, THEN conjunct2, rule_format]
    and o3 = f3 [THEN conjunct2, THEN conjunct2, THEN conjunct2, THEN conjunct2, rule_format]
    and o4 = f4 [THEN conjunct2, THEN conjunct2, THEN conjunct2, THEN conjunct2, rule_format]
  have run: "get_enhanced_headers (JObj existing) url = Inr (JObj d4)"
    unfolding get_enhanced_headers_def get_enhanced_headers_start
    by (simp only: bind_Inr s1 s2 s3 s4)
  have pre: "prefix existing d4"
    using p1 p2 p3 p4 by (meson prefix_order.trans)
  have kept: "map_of d4 k = Some v" if "map_of existing k = Some v" for k v
    by (rule k4, rule k3, rule k2, rule k1, rule that)
  have ua: "map_of d4 ''User-Agent'' = Some (JStr ''n8n-workflow/1.0'')"
    if "map_of existing ''User-Agent'' = None"
    by (rule k4, rule k3, rule k2, rule a1, rule that)
  have ct: "map_of d4 ''Content-Type'' = Some (JStr ''application/json'')"
    if "map_of existing ''Content-Type'' = None"
  proof -
    have "map_of d1 ''Content-Type'' = None"
      using that by (simp add: o1)
    then show ?thesis
      by (intro k4 k3 a2)
  qed
  have ac: "map_of d4 ''Accept'' = Some (JStr ''application/json, text/plain, */*'')"
    if "map_of existing ''Accept'' = None"
  proof -
    have "map_of d2 ''Accept'' = None"
      using that by (simp add: o1 o2)
    then show ?thesis
      by (intro k4 a3)
  qed
  have cn: "map_of d4 ''Connection'' = Some (JStr ''keep-alive'')"
    if "map_of existing ''Connection'' = None"
  proof -
    have "map_of d3 ''Connection'' = None"
      using that by (simp add: o1 o2 o3)
    then show ?thesis
      by (rule a4)
  qed
  have added: "\<forall>(k, v) \<in> set default_headers.
      map_of existing k = None \<longrightarrow> map_of d4 k = Some (JStr v)"
    using ua ct ac cn by (simp add: default_headers_def)
  have none: "map_of d4 k = None"
    if "map_of existing k = None" "k \<notin> fst ` set default_headers" for k
    using that by (simp add: default_headers_def o1 o2 o3 o4)
  from run pre kept added none show ?thesis
    by (intro exI [of _ d4] conjI allI impI) (assumption | simp)+
qed


text \<open>
  C5. For every existing header mapping the merge succeeds, and the merged mapping starts
  with the existing entries in their order; every key already present keeps its value; each
  of User-Agent, Content-Type, Accept, Connection that was absent is added with its default
  value; and no other key is added. Given the existing headers {"User-Agent": "custom"}, the
  result keeps "custom" for User-Agent and adds the defaults for Content-Type, Accept and
  Connection.
\<close>

theorem header_merge_keeps_caller_values:
  "(\<exists>merged. get_enhanced_headers (JObj existing) url = Inr (JObj merged)
     \<and> prefix existing merged
     \<and> (\<forall>k v. map_of existing k = Some v \<longrightarrow> map_of merged k = Some v)
     \<and> (\<forall>(k, v) \<in> set default_headers.
           map_of existing k = None \<longrightarrow> map_of merged k = Some (JStr v))
     \<and> (\<forall>k. map_of existing k = None \<and> k \<notin> fst ` set default_headers
           \<longrightarrow> map_of merged k = None))
   \<and> get_enhanced_headers (JObj [(''User-Agent'', JStr ''custom'')]) url
       = Inr (JObj [(''User-Agent'', JStr ''custom''),
                    (''Content-Type'', JStr ''application/json''),
                    (''Accept'', JStr ''application/json, text/plain, */*''),
                    (''Connection'', JStr ''keep-alive'')])"
proof
  show "\<exists>merged. get_enhanced_headers (JObj existing) url = Inr (JObj merged)
     \<and> prefix existing merged
     \<and> (\<forall>k v. map_of existing k = Some v \<longrightarrow> map_of merged k = Some v)
     \<and> (\<forall>(k, v) \<in> set default_headers.
           map_of existing k = None \<longrightarrow> map_of merged k = Some (JStr v))
     \<and> (\<forall>k. map_of existing k = None \<and> k \<notin> fst ` set default_headers
           \<longrightarrow> map_of merged k = None)"
    by (rule merge_into_dict)
  show "get_enhanced_headers (JObj [(''User-Agent'', JStr ''custom'')]) url
       = Inr (JObj [(''User-Agent'', JStr ''custom''),
                    (''Content-Type'', JStr ''application/json''),
                    (''Accept'', JStr ''application/json, text/plain, */*''),
                    (''Connection'', JStr ''keep-alive'')])"
    by (simp add: get_enhanced_headers_def bind_def)
qed

theorem header_merge_witness:
  "map_of [(''User-Agent'', JStr ''custom'')] ''User-Agent'' = Some (JStr ''custom'')
   \<and> map_of [(''User-Agent'', JStr ''custom'')] ''Accept'' = None
   \<and> (''Accept'', ''application/json, text/plain, */*'') \<in> set default_headers
   \<and> (\<exists>merged. get_enhanced_headers (JObj [(''User-Agent'', JStr ''custom'')])
          (JStr ''https://example.com/api'') = Inr (JObj merged)
        \<and> map_of merged ''User-Agent'' = Some (JStr ''custom'')
        \<and> map_of merged ''Accept'' = Some (JStr ''application/json, text/plain, */*''))"
proof -
  let ?existing = "[(''User-Agent'', JStr ''custom'')]"
  have h1: "map_of ?existing ''User-Agent'' = Some (JStr ''custom'')"
    by simp
  have h2: "map_of ?existing ''Accept'' = None"
    by simp
  have h3: "(''Accept'', ''application/json, text/plain, */*'') \<in> set default_headers"
    by (simp add: default_headers_def)
  from header_merge_keeps_caller_values [of ?existing "JStr ''https://example.com/api''"]
  obtain merged where m: "get_enhanced_headers (JObj ?existing)
        (JStr ''https://example.com/api'') = Inr (JObj merged)"
    and kept: "\<forall>k v. map_of ?existing k = Some v \<longrightarrow> map_of merged k = Some v"
    and added: "\<forall>(k, v) \<in> set default_headers.
        map_of ?existing k = None \<longrightarrow> map_of merged k = Some (JStr v)"
    by (elim conjE exE)
  from kept h1 have r1: "map_of merged ''User-Agent'' = Some (JStr ''custom'')"
    by blast
  from added h2 h3 have r2: "map_of merged ''Accept''
      = Some (JStr ''application/json, text/plain, */*'')"
    by blast
  from h1 h2 h3 m r1 r2 show ?thesis
    by blast
qed

section \<open>Node enhancer: frame and invariant\<close>

text \<open>
  C9. A node whose type entry is not the HTTP-request type (or is absent) is returned as
  it was, entry for entry, and the operation returns False.
\<close>

theorem non_http_node_untouched:
  "dict_get node ''type'' JNull \<noteq> http_request_type
     \<Longrightarrow> enhance_http_node node = Inr (node, False)"
  by (simp add: enhance_http_node_def)

theorem non_http_node_untouched_witness:
  "dict_get [(''name'', JStr ''Set Fields''), (''type'', JStr ''n8n-nodes-base.set''),
             (''parameters'', JNull)] ''type'' JNull \<noteq> http_request_type
   \<and> enhance_http_node [(''name'', JStr ''Set Fields''), (''type'', JStr ''n8n-nodes-base.set''),
             (''parameters'', JNull)]
       = Inr ([(''name'', JStr ''Set Fields''), (''type'', JStr ''n8n-nodes-base.set''),
             (''parameters'', JNull)], False)"
proof -
  have h: "dict_get [(''name'', JStr ''Set Fields''), (''type'', JStr ''n8n-nodes-base.set''),
             (''parameters'', JNull)] ''type'' JNull \<noteq> http_request_type"
    by (simp add: dict_get_def http_request_type_def)
  from h non_http_node_untouched [OF h] show ?thesis
    by (rule conjI)
qed

lemma enhance_http_node_True:
  assumes "enhance_http_node node = Inr (node', True)"
  shows "\<exists>p0 o0 t r h.
     dict_get node ''type'' JNull = http_request_type
   \<and> dict_get node ''parameters'' (JObj []) = JObj p0
   \<and> dict_get p0 ''options'' (JObj []) = JObj o0
   \<and> get_timeout_config (dict_get node ''name'' (JStr ''HTTP Request''))
        (dict_get p0 ''url'' (JStr [])) = Inr t
   \<and> get_retry_config (dict_get node ''name'' (JStr ''HTTP Request''))
        (dict_get p0 ''url'' (JStr [])) = Inr r
   \<and> get_enhanced_headers (dict_get p0 ''headers'' (JObj [])) (dict_get p0 ''url'' (JStr []))
        = Inr h
   \<and> node' = AList.update ''onError'' (JStr ''continueRegularOutput'')
        (AList.update ''parameters''
          (JObj (AList.update ''options''
             (JObj (AList.update ''redirect'' redirect_config
                (AList.update ''response'' response_config
                  (AList.update ''retry'' r
                    (AList.update ''timeout'' (JInt t) o0)))))
             (AList.update ''headers'' h p0))) node)"
  using assms
  by (auto simp: enhance_http_node_def Let_def bind_Inr_iff py_get_Inr_iff py_setitem_Inr_iff
      split: if_splits)

lemma enhance_http_node_False:
  assumes "enhance_http_node node = Inr (node', False)"
  shows "node' = node \<and> dict_get node ''type'' JNull \<noteq> http_request_type"
  using assms
  by (auto simp: enhance_http_node_def Let_def bind_Inr_iff split: if_splits)

lemma filter_update_other:
  "(\<And>v. \<not> P (k, v)) \<Longrightarrow> filter P (AList.update k v d) = filter P d"
  by (induction d) auto

text \<open>
  C10. Whenever the operation returns, the entries of the node other than
  \<^verbatim>\<open>parameters\<close> and \<^verbatim>\<open>onError\<close> are the same as before, in the same order, and
  every key other than these two looks up the same value.
\<close>

theorem other_fields_unchanged:
  assumes "enhance_http_node node = Inr (node', flag)"
  shows "filter (\<lambda>(k, v). k \<noteq> ''parameters'' \<and> k \<noteq> ''onError'') node'
           = filter (\<lambda>(k, v). k \<noteq> ''parameters'' \<and> k \<noteq> ''onError'') node
       \<and> (\<forall>k. k \<noteq> ''parameters'' \<and> k \<noteq> ''onError'' \<longrightarrow> map_of node' k = map_of node k)"
proof (cases flag)
  case True
  with assms have "enhance_http_node node = Inr (node', True)"
    by simp
  from enhance_http_node_True [OF this]
  obtain p where "node' = AList.update ''onError'' (JStr ''continueRegularOutput'')
        (AList.update ''parameters'' p node)"
    by blast
  then show ?thesis
    by (simp add: filter_update_other update_conv')
next
  case False
  with assms have "enhance_http_node node = Inr (node', False)"
    by simp
  from enhance_http_node_False [OF this] have "node' = node"
    by (rule conjunct1)
  then show ?thesis
    by simp
qed

lemma example_http_node_run:
  "enhance_http_node example_http_node = Inr (example_http_node_enhanced, True)"
  by (simp add: example_http_node_def example_http_node_enhanced_def enhance_http_node_def
      dict_get_def http_request_type_def bind_def get_timeout_config_def
      get_retry_config_def get_enhanced_headers_def any_keyword_in_def lower_def
      lower_char_def retry_policy_def response_config_def redirect_config_def)

theorem other_fields_unchanged_witness:
  "enhance_http_node example_http_node = Inr (example_http_node_enhanced, True)
   \<and> filter (\<lambda>(k, v). k \<noteq> ''parameters'' \<and> k \<noteq> ''onError'') example_http_node_enhanced
       = [(''id'', JStr ''7''), (''name'', JStr ''Notify Team''),
          (''type'', JStr ''n8n-nodes-base.httpRequest''), (''typeVersion'', JInt 4),
          (''position'', JList [JInt 100, JInt 200]), (''credentials'', JObj [])]
   \<and> map_of example_http_node_enhanced ''id'' = Some (JStr ''7'')"
proof -
  have r: "enhance_http_node example_http_node = Inr (example_http_node_enhanced, True)"
    by (rule example_http_node_run)
  from other_fields_unchanged [OF r] r show ?thesis
    by (simp add: example_http_node_def)
qed

lemma timeout_values:
  "get_timeout_config name url = Inr t \<Longrightarrow> t \<in> {10000, 15000, 20000, 25000, 30000}"
  by (auto simp: get_timeout_config_def split: sum.splits if_splits)

lemma retry_values:
  "get_retry_config name url = Inr r
     \<Longrightarrow> r \<in> {retry_policy 3 2000, retry_policy 2 3000, retry_policy 3 1000,
               retry_policy 3 1500}"
  by (auto simp: get_retry_config_def split: sum.splits if_splits)

lemma get_enhanced_headers_list:
  assumes "get_enhanced_headers (JList xs) url = Inr h" and "xs \<noteq> []"
  shows "h = JList xs \<and> header_names_in xs"
  using assms
  by (auto simp: get_enhanced_headers_def bind_Inr_iff header_names_in_def
      default_headers_def split: if_splits)

lemma get_enhanced_headers_falsy:
  "\<not> truthy e \<Longrightarrow> get_enhanced_headers e url = get_enhanced_headers (JObj []) url"
  by (simp add: get_enhanced_headers_def)

lemma get_enhanced_headers_cases:
  assumes "get_enhanced_headers e url = Inr h"
  shows "(\<exists>d. (e = JObj d \<or> \<not> truthy e \<and> d = [])
            \<and> get_enhanced_headers (JObj d) url = Inr h)
       \<or> (\<exists>xs. e = JList xs \<and> xs \<noteq> [] \<and> h = JList xs \<and> header_names_in xs)"
proof (cases "truthy e")
  case False
  with assms show ?thesis
    using get_enhanced_headers_falsy [of e url] by auto
next
  case True
  show ?thesis
  proof (cases e)
    case (JObj d)
    with assms show ?thesis by blast
  next
    case (JList xs)
    with assms True get_enhanced_headers_list [of xs url h] show ?thesis
      by simp
  qed (use assms True in \<open>simp_all add: get_enhanced_headers_def bind_def\<close>)
qed

lemma caller_header_eq:
  assumes "dict_get node ''parameters'' (JObj []) = JObj p0"
    and "dict_get p0 ''headers'' (JObj []) = JObj d \<or>
         \<not> truthy (dict_get p0 ''headers'' (JObj [])) \<and> d = []"
  shows "caller_header node k = map_of d k"
  using assms
  by (cases "dict_get p0 ''headers'' (JObj [])") (auto simp: caller_header_def)

lemma enhanced_headers_shape:
  assumes p: "dict_get node ''parameters'' (JObj []) = JObj p0"
    and h: "get_enhanced_headers (dict_get p0 ''headers'' (JObj [])) url = Inr h"
  shows "case h of
           JObj merged \<Rightarrow>
             \<forall>(k, v) \<in> set default_headers.
               map_of merged k
                 = (case caller_header node k of None \<Rightarrow> Some (JStr v) | Some c \<Rightarrow> Some c)
         | JList xs \<Rightarrow> header_names_in xs
         | _ \<Rightarrow> False"
proof -
  let ?e = "dict_get p0 ''headers'' (JObj [])"
  from get_enhanced_headers_cases [OF h]
  consider d where "?e = JObj d \<or> \<not> truthy ?e \<and> d = []"
      "get_enhanced_headers (JObj d) url = Inr h"
    | xs where "h = JList xs" "header_names_in xs"
    by blast
  then show ?thesis
  proof cases
    case 1
    from merge_into_dict [of d url] 1(2)
    obtain merged where m: "h = JObj merged"
      and kept: "\<forall>k v. map_of d k = Some v \<longrightarrow> map_of merged k = Some v"
      and added: "\<forall>(k, v) \<in> set default_headers.
          map_of d k = None \<longrightarrow> map_of merged k = Some (JStr v)"
      by auto
    have c: "caller_header node k = map_of d k" for k
      using caller_header_eq [OF p 1(1)] .
    have "map_of merged k
        = (case caller_header node k of None \<Rightarrow> Some (JStr v) | Some c \<Rightarrow> Some c)"
      if "(k, v) \<in> set default_headers" for k v
    proof (cases "map_of d k")
      case None
      with added that show ?thesis
        by (auto simp: c)
    next
      case (Some c')
      with kept show ?thesis
        by (simp add: c)
    qed
    with m show ?thesis
      by auto
  next
    case 2
    then show ?thesis
      by simp
  qed
qed

section \<open>Malformed entries\<close>

lemma url_lower_Inr_iff:
  "(\<exists>s. (if truthy u then py_lower u else Inr []) = Inr s)
     \<longleftrightarrow> (case u of JStr s \<Rightarrow> True | _ \<Rightarrow> \<not> truthy u)"
  by (cases u) auto

lemma get_timeout_config_Inr_iff:
  "(\<exists>t. get_timeout_config name url = Inr t)
     \<longleftrightarrow> (\<exists>s. name = JStr s) \<and> (case url of JStr s \<Rightarrow> True | _ \<Rightarrow> \<not> truthy url)"
proof (cases name)
  case (JStr s)
  have "(\<exists>t. get_timeout_config (JStr s) url = Inr t)
      \<longleftrightarrow> (\<exists>s. (if truthy url then py_lower url else Inr []) = Inr s)"
    by (cases "if truthy url then py_lower url else Inr []")
      (simp_all add: get_timeout_config_def)
  with JStr show ?thesis
    by (simp add: url_lower_Inr_iff)
qed (simp_all add: get_timeout_config_def)

lemma get_retry_config_Inr_iff:
  "(\<exists>r. get_retry_config name url = Inr r)
     \<longleftrightarrow> (\<exists>s. name = JStr s) \<and> (case url of JStr s \<Rightarrow> True | _ \<Rightarrow> \<not> truthy url)"
proof (cases name)
  case (JStr s)
  have "(\<exists>r. get_retry_config (JStr s) url = Inr r)
      \<longleftrightarrow> (\<exists>s. (if truthy url then py_lower url else Inr []) = Inr s)"
    by (cases "if truthy url then py_lower url else Inr []")
      (simp_all add: get_retry_config_def)
  with JStr show ?thesis
    by (simp add: url_lower_Inr_iff)
qed (simp_all add: get_retry_config_def)

lemma get_enhanced_headers_list_ok:
  "header_names_in xs \<Longrightarrow> get_enhanced_headers (JList xs) url = Inr (JList xs)"
  by (cases "xs = []")
    (simp_all add: get_enhanced_headers_def bind_def header_names_in_def default_headers_def)

lemma get_enhanced_headers_Inr_shape:
  assumes "get_enhanced_headers e url = Inr h"
  shows "case e of JObj d \<Rightarrow> True | JList xs \<Rightarrow> xs = [] \<or> header_names_in xs
      | _ \<Rightarrow> \<not> truthy e"
proof -
  from get_enhanced_headers_cases [OF assms]
  have "(\<exists>d. e = JObj d \<or> \<not> truthy e \<and> d = []) \<or> (\<exists>xs. e = JList xs \<and> header_names_in xs)"
    by auto
  then show ?thesis
    by (cases e) auto
qed

lemma get_enhanced_headers_dict_ok: "\<exists>h. get_enhanced_headers (JObj d) url = Inr h"
proof -
  from merge_into_dict [of d url] obtain merged where
    "get_enhanced_headers (JObj d) url = Inr (JObj merged)"
    by (elim exE conjE)
  then show ?thesis ..
qed

lemma get_enhanced_headers_tolerated:
  assumes ok: "case e of JObj d \<Rightarrow> True | JList xs \<Rightarrow> xs = [] \<or> header_names_in xs
      | _ \<Rightarrow> \<not> truthy e"
  shows "\<exists>h. get_enhanced_headers e url = Inr h"
proof (cases "truthy e")
  case False
  then show ?thesis
    using get_enhanced_headers_dict_ok [of "[]" url] get_enhanced_headers_falsy [OF False, of url] by simp
next
  case True
  show ?thesis
  proof (cases e)
    case (JObj d)
    then show ?thesis
      using get_enhanced_headers_dict_ok [of d url] by simp
  next
    case (JList xs)
    with ok True have "header_names_in xs"
      by simp
    from get_enhanced_headers_list_ok [OF this, of url] JList show ?thesis
      by simp
  qed (use ok True in simp_all)
qed

lemma get_enhanced_headers_Inr_iff:
  "(\<exists>h. get_enhanced_headers e url = Inr h)
     \<longleftrightarrow> (case e of
            JObj d \<Rightarrow> True
          | JList xs \<Rightarrow> xs = [] \<or> header_names_in xs
          | _ \<Rightarrow> \<not> truthy e)"
proof
  assume "\<exists>h. get_enhanced_headers e url = Inr h"
  then obtain h where "get_enhanced_headers e url = Inr h" ..
  then show "case e of JObj d \<Rightarrow> True | JList xs \<Rightarrow> xs = [] \<or> header_names_in xs
      | _ \<Rightarrow> \<not> truthy e"
    by (rule get_enhanced_headers_Inr_shape)
next
  assume "case e of JObj d \<Rightarrow> True | JList xs \<Rightarrow> xs = [] \<or> header_names_in xs
      | _ \<Rightarrow> \<not> truthy e"
  then show "\<exists>h. get_enhanced_headers e url = Inr h"
    by (rule get_enhanced_headers_tolerated)
qed

lemma enhance_http_node_Inr_iff:
  assumes http: "dict_get node ''type'' JNull = http_request_type"
  shows "(\<exists>node' flag. enhance_http_node node = Inr (node', flag))
     \<longleftrightarrow> (\<exists>p0 o0.
            dict_get node ''parameters'' (JObj []) = JObj p0
          \<and> dict_get p0 ''options'' (JObj []) = JObj o0
          \<and> (\<exists>t. get_timeout_config (dict_get node ''name'' (JStr ''HTTP Request''))
                  (dict_get p0 ''url'' (JStr [])) = Inr t)
          \<and> (\<exists>r. get_retry_config (dict_get node ''name'' (JStr ''HTTP Request''))
                  (dict_get p0 ''url'' (JStr [])) = Inr r)
          \<and> (\<exists>h. get_enhanced_headers (dict_get p0 ''headers'' (JObj []))
                  (dict_get p0 ''url'' (JStr [])) = Inr h))"
  using http
  by (auto simp: enhance_http_node_def Let_def bind_Inr_iff py_get_Inr_iff py_setitem_Inr_iff)

text \<open>
  C6 as stated fails: an HTTP-request node whose parameters entry is null, whose options
  entry is a list, or whose headers entry is a string makes the operation raise.
\<close>

theorem malformed_node_counterexample:
  "enhance_http_node [(''type'', JStr ''n8n-nodes-base.httpRequest''),
       (''name'', JStr ''Fetch''), (''parameters'', JNull)] = Inl AttributeError
   \<and> enhance_http_node [(''type'', JStr ''n8n-nodes-base.httpRequest''),
       (''name'', JStr ''Fetch''), (''parameters'', JObj [(''options'', JList [])])]
       = Inl TypeError
   \<and> enhance_http_node [(''type'', JStr ''n8n-nodes-base.httpRequest''),
       (''name'', JStr ''Fetch''),
       (''parameters'', JObj [(''headers'', JStr ''Accept: */*'')])] = Inl AttributeError"
  by (simp add: enhance_http_node_def dict_get_def http_request_type_def bind_def
      get_timeout_config_def get_retry_config_def get_enhanced_headers_def
      any_keyword_in_def lower_def lower_char_def)

text \<open>
  C6, amended. The operation completes without raising exactly when the node is not an
  HTTP-request node or its entries are tolerated: the name is absent or a string, the
  parameters are absent or a mapping, the URL is absent, a string or a false value, the
  options are absent or a mapping, and the headers are absent, a mapping, a false value or
  a list holding the four header names. Absent entries count as empty.
\<close>

theorem enhancement_completes_iff:
  "(\<exists>node' flag. enhance_http_node node = Inr (node', flag))
     \<longleftrightarrow> dict_get node ''type'' JNull \<noteq> http_request_type \<or> well_formed_node node"
proof (cases "dict_get node ''type'' JNull = http_request_type")
  case False
  then show ?thesis
    by (auto simp: enhance_http_node_def)
next
  case True
  have "(\<exists>node' flag. enhance_http_node node = Inr (node', flag)) \<longleftrightarrow> well_formed_node node"
    unfolding enhance_http_node_Inr_iff [OF True] get_timeout_config_Inr_iff
      get_retry_config_Inr_iff get_enhanced_headers_Inr_iff well_formed_node_def
    by (auto split: json.splits)
  with True show ?thesis
    by simp
qed

theorem enhancement_completes_witness:
  "well_formed_node example_http_node
   \<and> (\<exists>node' flag. enhance_http_node example_http_node = Inr (node', flag))
   \<and> \<not> well_formed_node [(''type'', JStr ''n8n-nodes-base.httpRequest''),
          (''name'', JStr ''Fetch''), (''parameters'', JNull)]"
proof -
  have w: "well_formed_node example_http_node"
    by (simp add: well_formed_node_def example_http_node_def dict_get_def)
  have n: "\<not> well_formed_node [(''type'', JStr ''n8n-nodes-base.httpRequest''),
          (''name'', JStr ''Fetch''), (''parameters'', JNull)]"
    by (simp add: well_formed_node_def dict_get_def)
  from w have "\<exists>node' flag. enhance_http_node example_http_node = Inr (node', flag)"
    using enhancement_completes_iff [of example_http_node] by blast
  with w n show ?thesis
    by blast
qed

section \<open>The entries of an enhanced node\<close>

lemma enhanced_node_entries:
  assumes "enhance_http_node node = Inr (node', True)"
  shows "\<exists>parameters options timeout retry headers.
      map_of node' ''parameters'' = Some (JObj parameters)
    \<and> map_of parameters ''options'' = Some (JObj options)
    \<and> map_of options ''timeout'' = Some (JInt timeout)
    \<and> timeout \<in> {10000, 15000, 20000, 25000, 30000}
    \<and> map_of options ''retry'' = Some retry
    \<and> retry \<in> {retry_policy 3 2000, retry_policy 2 3000, retry_policy 3 1000,
                 retry_policy 3 1500}
    \<and> map_of options ''response''
        = Some (JObj [(''response'', JObj [(''neverError'', JBool False)])])
    \<and> lookup_path (JObj options) [''response'', ''response'', ''neverError'']
        = Some (JBool False)
    \<and> lookup_path (JObj options) [''response'', ''neverError''] = None
    \<and> map_of options ''redirect''
        = Some (JObj [(''followRedirects'', JBool True), (''maxRedirects'', JInt 3)])
    \<and> map_of parameters ''headers'' = Some headers
    \<and> (case headers of
          JObj merged \<Rightarrow>
            \<forall>(k, v) \<in> set default_headers.
              map_of merged k
                = (case caller_header node k of None \<Rightarrow> Some (JStr v) | Some c \<Rightarrow> Some c)
        | JList xs \<Rightarrow> header_names_in xs
        | _ \<Rightarrow> False)
    \<and> map_of node' ''onError'' = Some (JStr ''continueRegularOutput'')"
proof -
  from enhance_http_node_True [OF assms]
  obtain p0 o0 t r h where p: "dict_get node ''parameters'' (JObj []) = JObj p0"
    and t: "get_timeout_config (dict_get node ''name'' (JStr ''HTTP Request''))
        (dict_get p0 ''url'' (JStr [])) = Inr t"
    and r: "get_retry_config (dict_get node ''name'' (JStr ''HTTP Request''))
        (dict_get p0 ''url'' (JStr [])) = Inr r"
    and h: "get_enhanced_headers (dict_get p0 ''headers'' (JObj []))
        (dict_get p0 ''url'' (JStr [])) = Inr h"
    and n: "node' = AList.update ''onError'' (JStr ''continueRegularOutput'')
        (AList.update ''parameters''
          (JObj (AList.update ''options''
             (JObj (AList.update ''redirect'' redirect_config
                (AList.update ''response'' response_config
                  (AList.update ''retry'' r
                    (AList.update ''timeout'' (JInt t) o0)))))
             (AList.update ''headers'' h p0))) node)"
    by blast
  let ?options = "AList.update ''redirect'' redirect_config
      (AList.update ''response'' response_config
        (AList.update ''retry'' r (AList.update ''timeout'' (JInt t) o0)))"
  let ?parameters = "AList.update ''options'' (JObj ?options) (AList.update ''headers'' h p0)"
  have 1: "map_of node' ''parameters'' = Some (JObj ?parameters)"
    by (simp add: n update_conv')
  have 2: "map_of ?parameters ''options'' = Some (JObj ?options)"
    by (simp add: update_conv')
  have 3: "map_of ?options ''timeout'' = Some (JInt t)"
    by (simp add: update_conv')
  have 4: "t \<in> {10000, 15000, 20000, 25000, 30000}"
    using t by (rule timeout_values)
  have 5: "map_of ?options ''retry'' = Some r"
    by (simp add: update_conv')
  have 6: "r \<in> {retry_policy 3 2000, retry_policy 2 3000, retry_policy 3 1000,
      retry_policy 3 1500}"
    using r by (rule retry_values)
  have 7: "map_of ?options ''response''
      = Some (JObj [(''response'', JObj [(''neverError'', JBool False)])])"
    by (simp add: update_conv' response_config_def)
  from 7 have 71: "lookup_path (JObj ?options) [''response'', ''response'', ''neverError'']
      = Some (JBool False)"
    by simp
  from 7 have 72: "lookup_path (JObj ?options) [''response'', ''neverError''] = None"
    by simp
  have 8: "map_of ?options ''redirect''
      = Some (JObj [(''followRedirects'', JBool True), (''maxRedirects'', JInt 3)])"
    by (simp add: update_conv' redirect_config_def)
  have 9: "map_of ?parameters ''headers'' = Some h"
    by (simp add: update_conv')
  note 10 = enhanced_headers_shape [OF p h]
  have 11: "map_of node' ''onError'' = Some (JStr ''continueRegularOutput'')"
    by (simp add: n update_conv')
  from 1 2 3 4 5 6 7 71 72 8 9 10 11 show ?thesis
    by (intro exI conjI)
qed

lemma http_node_completes_iff:
  assumes "dict_get node ''type'' JNull = http_request_type"
  shows "(\<exists>node' flag. enhance_http_node node = Inr (node', flag)) \<longleftrightarrow> well_formed_node node"
  unfolding enhance_http_node_Inr_iff [OF assms] get_timeout_config_Inr_iff
    get_retry_config_Inr_iff get_enhanced_headers_Inr_iff well_formed_node_def
  by (auto split: json.splits)

lemma http_node_flag:
  assumes "dict_get node ''type'' JNull = http_request_type"
    and "enhance_http_node node = Inr (node', flag)"
  shows "flag"
proof (rule ccontr)
  assume "\<not> flag"
  with assms(2) have "enhance_http_node node = Inr (node', False)"
    by simp
  from enhance_http_node_False [OF this] assms(1) show False
    by simp
qed

text \<open>
  C4 as stated fails at one path: after the enhancement of the example node the options
  have no entry at response.neverError; the flag stands one level deeper, at
  response.response.neverError.
\<close>

theorem never_error_path_counterexample:
  "enhance_http_node example_http_node = Inr (example_http_node_enhanced, True)
   \<and> lookup_path (JObj example_http_node_enhanced)
        [''parameters'', ''options'', ''response'', ''neverError''] = None
   \<and> lookup_path (JObj example_http_node_enhanced)
        [''parameters'', ''options'', ''response'', ''response'', ''neverError'']
       = Some (JBool False)"
proof -
  have "lookup_path (JObj example_http_node_enhanced)
        [''parameters'', ''options'', ''response'', ''neverError''] = None"
    by (simp add: example_http_node_enhanced_def)
  moreover have "lookup_path (JObj example_http_node_enhanced)
        [''parameters'', ''options'', ''response'', ''response'', ''neverError'']
       = Some (JBool False)"
    by (simp add: example_http_node_enhanced_def)
  ultimately show ?thesis
    using example_http_node_run by simp
qed

text \<open>
  C4, amended. Take a node whose type is the HTTP-request type. If its entries are well
  formed the operation returns, and whenever it returns it returns True and the node then
  has a parameters mapping with an options mapping in it; the options hold an integer
  timeout (one of the five table values), a retry policy (one of the four of the table),
  the response entry {response: {neverError: false}}, so that the flag stands at
  response.response.neverError and nothing stands at response.neverError, and the
  redirect entry {followRedirects: true, maxRedirects: 3}; the headers entry is a mapping
  in which each of the four default keys has the caller's value when the caller's header
  mapping had the key and the default value otherwise (or it is the caller's own list,
  which then holds the four names); and the node's onError entry is
  continueRegularOutput.
\<close>

theorem enhanced_node_invariant:
  assumes http: "dict_get node ''type'' JNull = http_request_type"
  shows "(well_formed_node node \<longrightarrow> (\<exists>node'. enhance_http_node node = Inr (node', True)))
    \<and> (\<forall>node' flag. enhance_http_node node = Inr (node', flag) \<longrightarrow>
          flag \<and> (\<exists>parameters options timeout retry headers.
          map_of node' ''parameters'' = Some (JObj parameters)
        \<and> map_of parameters ''options'' = Some (JObj options)
        \<and> map_of options ''timeout'' = Some (JInt timeout)
        \<and> timeout \<in> {10000, 15000, 20000, 25000, 30000}
        \<and> map_of options ''retry'' = Some retry
        \<and> retry \<in> {retry_policy 3 2000, retry_policy 2 3000, retry_policy 3 1000,
                     retry_policy 3 1500}
        \<and> map_of options ''response''
            = Some (JObj [(''response'', JObj [(''neverError'', JBool False)])])
        \<and> lookup_path (JObj options) [''response'', ''response'', ''neverError'']
            = Some (JBool False)
        \<and> lookup_path (JObj options) [''response'', ''neverError''] = None
        \<and> map_of options ''redirect''
            = Some (JObj [(''followRedirects'', JBool True), (''maxRedirects'', JInt 3)])
        \<and> map_of parameters ''headers'' = Some headers
        \<and> (case headers of
              JObj merged \<Rightarrow>
                \<forall>(k, v) \<in> set default_headers.
                  map_of merged k
                    = (case caller_header node k of None \<Rightarrow> Some (JStr v) | Some c \<Rightarrow> Some c)
            | JList xs \<Rightarrow> header_names_in xs
            | _ \<Rightarrow> False)
        \<and> map_of node' ''onError'' = Some (JStr ''continueRegularOutput'')))"
proof (intro conjI allI impI)
  assume "well_formed_node node"
  with http_node_completes_iff [OF http]
  obtain node' flag where run: "enhance_http_node node = Inr (node', flag)"
    by blast
  from http_node_flag [OF http run] run show "\<exists>node'. enhance_http_node node = Inr (node', True)"
    by auto
next
  fix node' flag
  assume run: "enhance_http_node node = Inr (node', flag)"
  from http_node_flag [OF http run] show flag: "flag" .
  from run flag have "enhance_http_node node = Inr (node', True)"
    by simp
  then show "\<exists>parameters options timeout retry headers.
          map_of node' ''parameters'' = Some (JObj parameters)
        \<and> map_of parameters ''options'' = Some (JObj options)
        \<and> map_of options ''timeout'' = Some (JInt timeout)
        \<and> timeout \<in> {10000, 15000, 20000, 25000, 30000}
        \<and> map_of options ''retry'' = Some retry
        \<and> retry \<in> {retry_policy 3 2000, retry_policy 2 3000, retry_policy 3 1000,
                     retry_policy 3 1500}
        \<and> map_of options ''response''
            = Some (JObj [(''response'', JObj [(''neverError'', JBool False)])])
        \<and> lookup_path (JObj options) [''response'', ''response'', ''neverError'']
            = Some (JBool False)
        \<and> lookup_path (JObj options) [''response'', ''neverError''] = None
        \<and> map_of options ''redirect''
            = Some (JObj [(''followRedirects'', JBool True), (''maxRedirects'', JInt 3)])
        \<and> map_of parameters ''headers'' = Some headers
        \<and> (case headers of
              JObj merged \<Rightarrow>
                \<forall>(k, v) \<in> set default_headers.
                  map_of merged k
                    = (case caller_header node k of None \<Rightarrow> Some (JStr v) | Some c \<Rightarrow> Some c)
            | JList xs \<Rightarrow> header_names_in xs
            | _ \<Rightarrow> False)
        \<and> map_of node' ''onError'' = Some (JStr ''continueRegularOutput'')"
    by (rule enhanced_node_entries)
qed

theorem enhanced_node_invariant_witness:
  "dict_get example_http_node ''type'' JNull = http_request_type
   \<and> well_formed_node example_http_node
   \<and> enhance_http_node example_http_node = Inr (example_http_node_enhanced, True)
   \<and> (\<exists>parameters options timeout retry headers.
        map_of example_http_node_enhanced ''parameters'' = Some (JObj parameters)
      \<and> map_of parameters ''options'' = Some (JObj options)
      \<and> map_of options ''timeout'' = Some (JInt timeout)
      \<and> timeout \<in> {10000, 15000, 20000, 25000, 30000}
      \<and> map_of options ''retry'' = Some retry
      \<and> retry \<in> {retry_policy 3 2000, retry_policy 2 3000, retry_policy 3 1000,
                   retry_policy 3 1500}
      \<and> map_of options ''response''
          = Some (JObj [(''response'', JObj [(''neverError'', JBool False)])])
      \<and> lookup_path (JObj options) [''response'', ''response'', ''neverError'']
          = Some (JBool False)
      \<and> lookup_path (JObj options) [''response'', ''neverError''] = None
      \<and> map_of options ''redirect''
          = Some (JObj [(''followRedirects'', JBool True), (''maxRedirects'', JInt 3)])
      \<and> map_of parameters ''headers'' = Some headers
      \<and> (case headers of
            JObj merged \<Rightarrow>
              \<forall>(k, v) \<in> set default_headers.
                map_of merged k
                  = (case caller_header example_http_node k of None \<Rightarrow> Some (JStr v) | Some c \<Rightarrow> Some c)
          | JList xs \<Rightarrow> header_names_in xs
          | _ \<Rightarrow> False)
      \<and> map_of example_http_node_enhanced ''onError'' = Some (JStr ''continueRegularOutput''))"
proof -
  have h: "dict_get example_http_node ''type'' JNull = http_request_type"
    by (simp add: example_http_node_def dict_get_def http_request_type_def)
  have w: "well_formed_node example_http_node"
    by (simp add: well_formed_node_def example_http_node_def dict_get_def)
  have r: "enhance_http_node example_http_node = Inr (example_http_node_enhanced, True)"
    by (rule example_http_node_run)
  note inst = enhanced_node_invariant [OF h]
  from inst r have "True \<and> (\<exists>parameters options timeout retry headers.
        map_of example_http_node_enhanced ''parameters'' = Some (JObj parameters)
      \<and> map_of parameters ''options'' = Some (JObj options)
      \<and> map_of options ''timeout'' = Some (JInt timeout)
      \<and> timeout \<in> {10000, 15000, 20000, 25000, 30000}
      \<and> map_of options ''retry'' = Some retry
      \<and> retry \<in> {retry_policy 3 2000, retry_policy 2 3000, retry_policy 3 1000,
                   retry_policy 3 1500}
      \<and> map_of options ''response''
          = Some (JObj [(''response'', JObj [(''neverError'', JBool False)])])
      \<and> lookup_path (JObj options) [''response'', ''response'', ''neverError'']
          = Some (JBool False)
      \<and> lookup_path (JObj options) [''response'', ''neverError''] = None
      \<and> map_of options ''redirect''
          = Some (JObj [(''followRedirects'', JBool True), (''maxRedirects'', JInt 3)])
      \<and> map_of parameters ''headers'' = Some headers
      \<and> (case headers of
            JObj merged \<Rightarrow>
              \<forall>(k, v) \<in> set default_headers.
                map_of merged k
                  = (case caller_header example_http_node k of None \<Rightarrow> Some (JStr v) | Some c \<Rightarrow> Some c)
          | JList xs \<Rightarrow> header_names_in xs
          | _ \<Rightarrow> False)
      \<and> map_of example_http_node_enhanced ''onError'' = Some (JStr ''continueRegularOutput''))"
    by blast
  with h w r show ?thesis
    by simp
qed

section \<open>Running the enhancer again\<close>

lemma update_same: "map_of al k = Some v \<Longrightarrow> AList.update k v al = al"
  by (induction al) (auto split: if_splits)

lemma get_enhanced_headers_full_dict:
  assumes "\<forall>(k, v) \<in> set default_headers. map_of d k \<noteq> None"
  shows "get_enhanced_headers (JObj d) url = Inr (JObj d)"
proof -
  from assms obtain a b c e where k: "map_of d ''User-Agent'' = Some a"
    "map_of d ''Content-Type'' = Some b" "map_of d ''Accept'' = Some c"
    "map_of d ''Connection'' = Some e"
    by (auto simp: default_headers_def)
  then have "d \<noteq> []"
    by auto
  with k show ?thesis
    by (simp add: get_enhanced_headers_def bind_def)
qed

lemma get_enhanced_headers_idem:
  assumes "get_enhanced_headers e url = Inr h"
  shows "get_enhanced_headers h url' = Inr h"
proof -
  from get_enhanced_headers_cases [OF assms]
  consider (dict) d where "get_enhanced_headers (JObj d) url = Inr h"
    | (list) xs where "h = JList xs" "header_names_in xs"
    by auto
  then show ?thesis
  proof cases
    case dict
    from merge_into_dict [of d url] dict
    obtain merged where m: "h = JObj merged"
      and kept: "\<forall>k v. map_of d k = Some v \<longrightarrow> map_of merged k = Some v"
      and added: "\<forall>(k, v) \<in> set default_headers.
          map_of d k = None \<longrightarrow> map_of merged k = Some (JStr v)"
      by auto
    have "map_of merged k \<noteq> None" if "(k, v) \<in> set default_headers" for k v
    proof (cases "map_of d k")
      case None
      with added that show ?thesis by auto
    next
      case (Some c)
      with kept show ?thesis by simp
    qed
    then have "\<forall>(k, v) \<in> set default_headers. map_of merged k \<noteq> None"
      by auto
    from get_enhanced_headers_full_dict [OF this] m show ?thesis
      by simp
  next
    case list
    from get_enhanced_headers_list_ok [OF list(2)] list(1) show ?thesis
      by simp
  qed
qed

lemma enhance_http_node_idem:
  assumes "enhance_http_node node = Inr (node', flag)"
  shows "enhance_http_node node' = Inr (node', flag)"
proof (cases flag)
  case False
  with assms have "enhance_http_node node = Inr (node', False)"
    by simp
  from enhance_http_node_False [OF this] this show ?thesis
    using False by simp
next
  case True
  with assms have run: "enhance_http_node node = Inr (node', True)"
    by simp
  from enhance_http_node_True [OF run]
  obtain p0 o0 t r h where ty: "dict_get node ''type'' JNull = http_request_type"
    and p: "dict_get node ''parameters'' (JObj []) = JObj p0"
    and t: "get_timeout_config (dict_get node ''name'' (JStr ''HTTP Request''))
        (dict_get p0 ''url'' (JStr [])) = Inr t"
    and r: "get_retry_config (dict_get node ''name'' (JStr ''HTTP Request''))
        (dict_get p0 ''url'' (JStr [])) = Inr r"
    and h: "get_enhanced_headers (dict_get p0 ''headers'' (JObj []))
        (dict_get p0 ''url'' (JStr [])) = Inr h"
    and n: "node' = AList.update ''onError'' (JStr ''continueRegularOutput'')
        (AList.update ''parameters''
          (JObj (AList.update ''options''
             (JObj (AList.update ''redirect'' redirect_config
                (AList.update ''response'' response_config
                  (AList.update ''retry'' r
                    (AList.update ''timeout'' (JInt t) o0)))))
             (AList.update ''headers'' h p0))) node)"
    by blast
  let ?options = "AList.update ''redirect'' redirect_config
      (AList.update ''response'' response_config
        (AList.update ''retry'' r (AList.update ''timeout'' (JInt t) o0)))"
  let ?parameters = "AList.update ''options'' (JObj ?options) (AList.update ''headers'' h p0)"
  have ty': "dict_get node' ''type'' JNull = http_request_type"
    using ty by (simp add: n dict_get_def update_conv')
  have nm': "dict_get node' ''name'' (JStr ''HTTP Request'')
      = dict_get node ''name'' (JStr ''HTTP Request'')"
    by (simp add: n dict_get_def update_conv')
  have p': "dict_get node' ''parameters'' (JObj []) = JObj ?parameters"
    by (simp add: n dict_get_def update_conv')
  have u': "dict_get ?parameters ''url'' (JStr []) = dict_get p0 ''url'' (JStr [])"
    by (simp add: dict_get_def update_conv')
  have o': "dict_get ?parameters ''options'' (JObj []) = JObj ?options"
    by (simp add: dict_get_def update_conv')
  have h': "dict_get ?parameters ''headers'' (JObj []) = h"
    by (simp add: dict_get_def update_conv')
  have oo: "AList.update ''redirect'' redirect_config
      (AList.update ''response'' response_config
        (AList.update ''retry'' r (AList.update ''timeout'' (JInt t) ?options))) = ?options"
    by (simp add: update_same update_conv')
  have pp: "AList.update ''options'' (JObj ?options) (AList.update ''headers'' h ?parameters)
      = ?parameters"
    by (simp add: update_same update_conv')
  have nn: "AList.update ''onError'' (JStr ''continueRegularOutput'')
      (AList.update ''parameters'' (JObj ?parameters) node') = node'"
    by (simp add: n update_same update_conv')
  have "enhance_http_node node' = Inr (AList.update ''onError'' (JStr ''continueRegularOutput'')
      (AList.update ''parameters'' (JObj ?parameters) node'), True)"
    unfolding enhance_http_node_def Let_def ty' nm' p'
    by (simp only: py_get.simps u' o' h' t r get_enhanced_headers_idem [OF h] bind_Inr
        py_setitem.simps oo pp if_False simp_thms)
  with nn True show ?thesis
    by simp
qed

section \<open>The loop over the nodes\<close>

lemma record_improvement_file:
  "record_improvement node imp = Inr imp' \<Longrightarrow> file_name imp' = file_name imp"
  by (auto simp: record_improvement_def Let_def bind_Inr_iff)

lemma record_improvement_any:
  "record_improvement node imp = Inr imp' \<Longrightarrow> \<exists>imp2'. record_improvement node imp2 = Inr imp2'"
  by (auto simp: record_improvement_def Let_def bind_Inr_iff)

lemma enhance_one_Inr:
  assumes "enhance_one node imp = Inr (node', imp')"
  shows "\<exists>d d' flag. node = JObj d \<and> node' = JObj d'
      \<and> enhance_http_node d = Inr (d', flag)
      \<and> (if flag then record_improvement d' imp = Inr imp' else imp' = imp)"
proof (cases node)
  case (JObj d)
  with assms have "bind (enhance_http_node d) (\<lambda>(d', enhanced).
      bind (if enhanced then record_improvement d' imp else Inr imp) (\<lambda>imp'.
      Inr (JObj d', imp'))) = Inr (node', imp')"
    by (simp add: enhance_one_def)
  then obtain res where res: "enhance_http_node d = Inr res"
    and rest: "(case res of (d', enhanced) \<Rightarrow>
        bind (if enhanced then record_improvement d' imp else Inr imp) (\<lambda>imp'.
        Inr (JObj d', imp'))) = Inr (node', imp')"
    unfolding bind_Inr_iff by blast
  obtain d' flag where dr: "res = (d', flag)"
    by (cases res)
  from rest dr have "bind (if flag then record_improvement d' imp else Inr imp) (\<lambda>imp'.
      Inr (JObj d', imp')) = Inr (node', imp')"
    by simp
  then obtain i where i: "(if flag then record_improvement d' imp else Inr imp) = Inr i"
    and out: "Inr (JObj d', i) = (Inr (node', imp') :: py_error + json \<times> improvements)"
    unfolding bind_Inr_iff by blast
  from out have "node' = JObj d'" "i = imp'"
    by simp_all
  with i res dr JObj show ?thesis
    by (intro exI [of _ d] exI [of _ d'] exI [of _ flag]) (simp split: if_splits)
qed (use assms in \<open>simp_all add: enhance_one_def\<close>)

lemma enhance_one_file:
  assumes "enhance_one node imp = Inr (node', imp')"
  shows "file_name imp' = file_name imp"
  using enhance_one_Inr [OF assms] record_improvement_file
  by (auto split: if_splits)

lemma enhance_one_idem:
  assumes "enhance_one node imp = Inr (node', imp')"
  shows "\<exists>imp2'. enhance_one node' imp2 = Inr (node', imp2')"
proof -
  from enhance_one_Inr [OF assms]
  obtain d d' flag where n: "node = JObj d" "node' = JObj d'"
    and e: "enhance_http_node d = Inr (d', flag)"
    and r: "if flag then record_improvement d' imp = Inr imp' else imp' = imp"
    by blast
  note e' = enhance_http_node_idem [OF e]
  show ?thesis
  proof (cases flag)
    case True
    with r have "record_improvement d' imp = Inr imp'"
      by simp
    from record_improvement_any [OF this, of imp2]
    obtain imp2' where "record_improvement d' imp2 = Inr imp2'" ..
    with e' True n show ?thesis
      by (simp add: enhance_one_def bind_Inr)
  next
    case False
    with e' n show ?thesis
      by (simp add: enhance_one_def bind_Inr)
  qed
qed

lemma enhance_one_http:
  assumes "enhance_one node imp = Inr (node', imp')"
  shows "is_http_node node' = is_http_node node"
proof -
  from enhance_one_Inr [OF assms]
  obtain d d' flag where n: "node = JObj d" "node' = JObj d'"
    and e: "enhance_http_node d = Inr (d', flag)"
    by blast
  show ?thesis
  proof (cases flag)
    case True
    with e have e1: "enhance_http_node d = Inr (d', True)"
      by simp
    from enhance_http_node_idem [OF e1] have e2: "enhance_http_node d' = Inr (d', True)" .
    from enhance_http_node_True [OF e1] enhance_http_node_True [OF e2] n show ?thesis
      by (auto simp: is_http_node_def)
  next
    case False
    with e have "enhance_http_node d = Inr (d', False)"
      by simp
    from enhance_http_node_False [OF this] n show ?thesis
      by simp
  qed
qed

lemma enhance_nodes_Cons_Inr:
  "enhance_nodes (node # rest) imp = Inr (out, imp'') \<longleftrightarrow>
     (\<exists>node' imp' rest'. enhance_one node imp = Inr (node', imp')
        \<and> enhance_nodes rest imp' = Inr (rest', imp'') \<and> out = node' # rest')"
  by (auto split: sum.splits)

lemma enhance_nodes_shape:
  "enhance_nodes ns imp = Inr (ns', imp')
     \<Longrightarrow> file_name imp' = file_name imp \<and> (\<forall>n \<in> set ns'. \<exists>d. n = JObj d)
       \<and> map is_http_node ns' = map is_http_node ns"
proof (induction ns arbitrary: imp ns' imp')
  case Nil
  then show ?case
    by simp
next
  case (Cons node rest)
  from Cons.prems obtain node' imp1 rest' where one: "enhance_one node imp = Inr (node', imp1)"
    and more: "enhance_nodes rest imp1 = Inr (rest', imp')" and out: "ns' = node' # rest'"
    unfolding enhance_nodes_Cons_Inr by blast
  from enhance_one_Inr [OF one] have "\<exists>d. node' = JObj d"
    by blast
  with Cons.IH [OF more] enhance_one_file [OF one] enhance_one_http [OF one] out
  show ?case
    by simp
qed

lemma enhance_nodes_idem:
  "enhance_nodes ns imp = Inr (ns', imp') \<Longrightarrow> \<exists>imp2'. enhance_nodes ns' imp2 = Inr (ns', imp2')"
proof (induction ns arbitrary: imp ns' imp' imp2)
  case Nil
  then show ?case
    by simp
next
  case (Cons node rest)
  from Cons.prems obtain node' imp1 rest' where one: "enhance_one node imp = Inr (node', imp1)"
    and more: "enhance_nodes rest imp1 = Inr (rest', imp')" and out: "ns' = node' # rest'"
    unfolding enhance_nodes_Cons_Inr by blast
  from enhance_one_idem [OF one, of imp2]
  obtain i where i: "enhance_one node' imp2 = Inr (node', i)" ..
  from Cons.IH [OF more, of i]
  obtain j where j: "enhance_nodes rest' i = Inr (rest', j)" ..
  from i j out show ?case
    by simp
qed

lemma enhance_nodes_append:
  "enhance_nodes xs imp = Inr (xs', imp') \<Longrightarrow> enhance_nodes ys imp' = Inr (ys', imp'')
     \<Longrightarrow> enhance_nodes (xs @ ys) imp = Inr (xs' @ ys', imp'')"
proof (induction xs arbitrary: imp xs')
  case Nil
  then show ?case
    by simp
next
  case (Cons node rest)
  from Cons.prems(1) obtain node' imp1 rest' where one: "enhance_one node imp = Inr (node', imp1)"
    and more: "enhance_nodes rest imp1 = Inr (rest', imp')" and out: "xs' = node' # rest'"
    unfolding enhance_nodes_Cons_Inr by blast
  from Cons.IH [OF more Cons.prems(2)] one out show ?case
    by simp
qed

lemma aux_nodes_not_http:
  "\<not> is_http_node error_handler_node" "\<not> is_http_node fallback_node"
  by (simp_all add: is_http_node_def error_handler_node_def fallback_node_def dict_get_def
      http_request_type_def)

lemma enhance_one_aux:
  "enhance_one error_handler_node imp = Inr (error_handler_node, imp)"
  "enhance_one fallback_node imp = Inr (fallback_node, imp)"
  by (simp_all add: enhance_one_def error_handler_node_def fallback_node_def
      enhance_http_node_def dict_get_def http_request_type_def bind_def)

lemma enhance_nodes_aux:
  "enhance_nodes [error_handler_node, fallback_node] imp
     = Inr ([error_handler_node, fallback_node], imp)"
  by (simp add: enhance_one_aux)

lemma http_nodes_of_dicts:
  "\<forall>n \<in> set ns. \<exists>d. n = JObj d \<Longrightarrow> http_nodes_of ns = Inr (filter is_http_node ns)"
  by (induction ns) (auto simp: is_http_node_def)

section \<open>Workflow processor: what a run stores\<close>

lemma load_Inr_iff: "load e p = Inr j \<longleftrightarrow> documents e p = Some (Document j)"
  by (auto simp: load_def split: option.splits stored.splits)

lemma py_getitem_Inr_iff:
  "py_getitem j k = Inr v \<longleftrightarrow> (\<exists>d. j = JObj d \<and> map_of d k = Some v)"
  by (cases j) (auto split: option.splits)

lemma py_extend_Inr_iff: "py_extend j ys = Inr r \<longleftrightarrow> (\<exists>xs. j = JList xs \<and> r = JList (xs @ ys))"
  by (cases j) auto

lemma persist_Inr_iff:
  "persist e p j = Inr e' \<longleftrightarrow>
     p \<notin> read_only e \<and> e' = e\<lparr>documents := (documents e)(p \<mapsto> Document j)\<rparr>"
  by (auto simp: persist_def)

lemma filter_empty_list_ex: "filter P xs = [] \<longleftrightarrow> \<not> list_ex P xs"
  by (induction xs) auto

lemma add_error_handling_nodes_dicts:
  assumes "map_of w ''nodes'' = Some (JList ns)" and "\<forall>n \<in> set ns. \<exists>d. n = JObj d"
  shows "add_error_handling_nodes (JObj w) = Inr (appended_nodes ns)"
  using assms
  by (simp add: add_error_handling_nodes_def bind_Inr dict_get_def http_nodes_of_dicts
      appended_nodes_def filter_empty_list_ex)

lemma enhance_workflow_body_run:
  assumes doc: "documents e p = Some (Document (JObj w))"
    and nodes: "map_of w ''nodes'' = Some (JList items)"
    and loop: "enhance_nodes items (initial_improvements p) = Inr (items', imp)"
    and writable: "p \<notin> read_only e"
  shows "enhance_workflow_body e p
     = Inr (e\<lparr>documents := (documents e)(p \<mapsto>
               Document (JObj (AList.update ''nodes''
                 (JList (items' @ appended_nodes items')) w)))\<rparr>,
            imp\<lparr>error_nodes_added := length (appended_nodes items')\<rparr>)"
proof -
  let ?w1 = "AList.update ''nodes'' (JList items') w"
  have 1: "load e p = Inr (JObj w)"
    using doc by (simp add: load_Inr_iff)
  have 2: "py_get (JObj w) ''nodes'' (JList []) = Inr (JList items)"
    using nodes by (simp add: dict_get_def)
  have 3: "store_nodes (JObj w) items' = JObj ?w1"
    using nodes by (simp add: store_nodes_def)
  have n1: "map_of ?w1 ''nodes'' = Some (JList items')"
    by (simp add: update_conv')
  from enhance_nodes_shape [OF loop] have "\<forall>n \<in> set items'. \<exists>d. n = JObj d"
    by blast
  from add_error_handling_nodes_dicts [OF n1 this]
  have 4: "add_error_handling_nodes (JObj ?w1) = Inr (appended_nodes items')" .
  have 5: "py_getitem (JObj ?w1) ''nodes'' = Inr (JList items')"
    using n1 by simp
  have 6: "AList.update ''nodes'' (JList (items' @ appended_nodes items')) ?w1
      = AList.update ''nodes'' (JList (items' @ appended_nodes items')) w"
    by simp
  have 7: "persist e p (JObj (AList.update ''nodes''
        (JList (items' @ appended_nodes items')) w))
      = Inr (e\<lparr>documents := (documents e)(p \<mapsto>
               Document (JObj (AList.update ''nodes''
                 (JList (items' @ appended_nodes items')) w)))\<rparr>)"
    using writable by (simp add: persist_def)
  show ?thesis
    unfolding enhance_workflow_body_def Let_def
    by (simp only: 1 2 3 4 5 6 7 bind_Inr py_iter.simps loop
        initial_improvements_def [symmetric] prod.case py_extend.simps py_setitem.simps)
qed

lemma py_iter_list:
  assumes "py_get (JObj w) ''nodes'' (JList []) = Inr nodes" and "py_iter nodes = Inr items"
    and "map_of w ''nodes'' = Some (JList old)"
  shows "items = old"
  using assms by (simp add: dict_get_def) auto

lemma enhance_workflow_body_Inr:
  assumes "enhance_workflow_body e p = Inr (e', imp')"
  shows "\<exists>w items items' imp.
      documents e p = Some (Document (JObj w))
    \<and> map_of w ''nodes'' = Some (JList items)
    \<and> enhance_nodes items (initial_improvements p) = Inr (items', imp)
    \<and> p \<notin> read_only e"
proof -
  from assms obtain workflow nodes items res where
      ld: "load e p = Inr workflow"
    and gt: "py_get workflow ''nodes'' (JList []) = Inr nodes"
    and it: "py_iter nodes = Inr items"
    and lp: "enhance_nodes items (initial_improvements p) = Inr res"
    and rest: "(case res of (items', imp) \<Rightarrow>
        bind (add_error_handling_nodes (store_nodes workflow items')) (\<lambda>error_nodes.
        bind (py_getitem (store_nodes workflow items') ''nodes'') (\<lambda>nodes.
        bind (py_extend nodes error_nodes) (\<lambda>nodes.
        bind (py_setitem (store_nodes workflow items') ''nodes'' nodes) (\<lambda>workflow.
        bind (persist e p workflow) (\<lambda>e'.
        Inr (e', imp\<lparr>error_nodes_added := length error_nodes\<rparr>))))))) = Inr (e', imp')"
    unfolding enhance_workflow_body_def Let_def bind_Inr_iff initial_improvements_def [symmetric]
    by blast
  obtain items' imp where res: "res = (items', imp)"
    by (cases res)
  from gt obtain w where w: "workflow = JObj w"
    unfolding py_get_Inr_iff by blast
  from rest res have "bind (add_error_handling_nodes (store_nodes workflow items'))
      (\<lambda>error_nodes.
        bind (py_getitem (store_nodes workflow items') ''nodes'') (\<lambda>nodes.
        bind (py_extend nodes error_nodes) (\<lambda>nodes.
        bind (py_setitem (store_nodes workflow items') ''nodes'' nodes) (\<lambda>workflow.
        bind (persist e p workflow) (\<lambda>e'.
        Inr (e', imp\<lparr>error_nodes_added := length error_nodes\<rparr>)))))) = Inr (e', imp')"
    by simp
  then obtain error_nodes n1 n2 wf2 where
      gi: "py_getitem (store_nodes workflow items') ''nodes'' = Inr n1"
    and ex: "py_extend n1 error_nodes = Inr n2"
    and ps: "persist e p wf2 = Inr e'"
    unfolding bind_Inr_iff by auto
  from ex obtain xs where n1: "n1 = JList xs"
    unfolding py_extend_Inr_iff by blast
  have "\<exists>old. map_of w ''nodes'' = Some (JList old)"
  proof (cases "map_of w ''nodes''")
    case None
    with gi w show ?thesis
      by (simp add: store_nodes_def)
  next
    case (Some v)
    show ?thesis
    proof (cases v)
      case (JList old)
      with Some show ?thesis
        by simp
    qed (use Some gi w n1 in \<open>simp_all add: store_nodes_def\<close>)
  qed
  then obtain old where old: "map_of w ''nodes'' = Some (JList old)" ..
  from py_iter_list [OF gt [unfolded w] it old] have "items = old" .
  with old ld w lp res ps show ?thesis
    by (simp add: load_Inr_iff persist_Inr_iff)
qed

lemma enhance_workflow_Improved_iff:
  "enhance_workflow e p = (e', Improved imp) \<longleftrightarrow> enhance_workflow_body e p = Inr (e', imp)"
  by (auto simp: enhance_workflow_def split: sum.splits)

lemma appended_nodes_not_http: "\<not> list_ex is_http_node (appended_nodes ns)"
  by (simp add: appended_nodes_def aux_nodes_not_http)

text \<open>
  C7. Enhancement is not idempotent. Take a file that the workflow processor has enhanced
  with success, and let the stored document hold at least one HTTP-request node. Its node
  list then ends with the two auxiliary nodes. A second run on that file succeeds as well,
  keeps every node as it is and appends the same two auxiliary nodes again, so that the
  stored list ends with error handler, fallback, error handler, fallback (each id twice);
  the summary reports 2 added nodes, and the stored document differs from the one before.
\<close>

theorem rerun_appends_second_pair:
  assumes run1: "enhance_workflow e p = (e1, Improved imp1)"
    and doc1: "documents e1 p = Some (Document (JObj w1))"
    and nodes1: "map_of w1 ''nodes'' = Some (JList ns1)"
    and http: "list_ex is_http_node ns1"
  shows "\<exists>pre e2 imp2.
      ns1 = pre @ [error_handler_node, fallback_node]
    \<and> enhance_workflow e1 p = (e2, Improved imp2)
    \<and> documents e2 p = Some (Document (JObj (AList.update ''nodes''
          (JList (pre @ [error_handler_node, fallback_node,
                         error_handler_node, fallback_node])) w1)))
    \<and> error_nodes_added imp2 = 2
    \<and> documents e2 p \<noteq> documents e1 p"
proof -
  from run1 have body1: "enhance_workflow_body e p = Inr (e1, imp1)"
    by (simp add: enhance_workflow_Improved_iff)
  from enhance_workflow_body_Inr [OF body1]
  obtain w items items' imp where doc: "documents e p = Some (Document (JObj w))"
    and nodes: "map_of w ''nodes'' = Some (JList items)"
    and loop: "enhance_nodes items (initial_improvements p) = Inr (items', imp)"
    and writable: "p \<notin> read_only e"
    by blast
  from enhance_workflow_body_run [OF doc nodes loop writable] body1
  have e1: "e1 = e\<lparr>documents := (documents e)(p \<mapsto>
      Document (JObj (AList.update ''nodes'' (JList (items' @ appended_nodes items')) w)))\<rparr>"
    by simp
  from e1 doc1 have w1: "w1 = AList.update ''nodes'' (JList (items' @ appended_nodes items')) w"
    by simp
  with nodes1 have ns1: "ns1 = items' @ appended_nodes items'"
    by (simp add: update_conv')
  from http have h: "list_ex is_http_node items'"
    by (simp add: ns1 appended_nodes_not_http)
  then have pair: "appended_nodes items' = [error_handler_node, fallback_node]"
    by (simp add: appended_nodes_def)
  have pre: "ns1 = items' @ [error_handler_node, fallback_node]"
    using ns1 pair by simp
  from enhance_nodes_idem [OF loop, of "initial_improvements p"]
  obtain i where i: "enhance_nodes items' (initial_improvements p) = Inr (items', i)" ..
  from enhance_nodes_append [OF i enhance_nodes_aux]
  have loop2: "enhance_nodes ns1 (initial_improvements p) = Inr (ns1, i)"
    by (simp add: pre)
  have writable1: "p \<notin> read_only e1"
    using writable by (simp add: e1)
  have again: "appended_nodes ns1 = [error_handler_node, fallback_node]"
    using http by (simp add: appended_nodes_def)
  let ?w2 = "AList.update ''nodes'' (JList (ns1 @ [error_handler_node, fallback_node])) w1"
  let ?e2 = "e1\<lparr>documents := (documents e1)(p \<mapsto> Document (JObj ?w2))\<rparr>"
  from enhance_workflow_body_run [OF doc1 nodes1 loop2 writable1]
  have body2: "enhance_workflow_body e1 p = Inr (?e2, i\<lparr>error_nodes_added := 2\<rparr>)"
    by (simp add: again)
  then have run2: "enhance_workflow e1 p = (?e2, Improved (i\<lparr>error_nodes_added := 2\<rparr>))"
    by (simp add: enhance_workflow_Improved_iff)
  have doc2: "documents ?e2 p = Some (Document (JObj (AList.update ''nodes''
      (JList (items' @ [error_handler_node, fallback_node,
                        error_handler_node, fallback_node])) w1)))"
    by (simp add: pre)
  have "map_of ?w2 ''nodes'' \<noteq> map_of w1 ''nodes''"
    by (simp add: update_conv' nodes1)
  then have "?w2 \<noteq> w1"
    by auto
  then have diff: "documents ?e2 p \<noteq> documents e1 p"
    by (simp add: doc1)
  have added: "error_nodes_added (i\<lparr>error_nodes_added := 2\<rparr>) = 2"
    by simp
  from pre run2 doc2 added diff show ?thesis
    by blast
qed

lemma example_loop:
  "\<exists>imp. enhance_nodes [JObj example_http_node]
       (initial_improvements ''n8n-workflows/notify.json'')
     = Inr ([JObj example_http_node_enhanced], imp)"
proof -
  have "\<exists>imp. record_improvement example_http_node_enhanced
      (initial_improvements ''n8n-workflows/notify.json'') = Inr imp"
    by (simp add: record_improvement_def example_http_node_enhanced_def dict_get_def bind_def
        get_timeout_reason_def get_specific_improvement_def any_keyword_in_def lower_def
        lower_char_def Let_def)
  then obtain imp where "record_improvement example_http_node_enhanced
      (initial_improvements ''n8n-workflows/notify.json'') = Inr imp" ..
  then have "enhance_nodes [JObj example_http_node]
       (initial_improvements ''n8n-workflows/notify.json'')
     = Inr ([JObj example_http_node_enhanced], imp)"
    by (simp add: enhance_one_def example_http_node_run bind_Inr)
  then show ?thesis ..
qed

lemma example_env_facts:
  "documents example_env ''n8n-workflows/notify.json''
     = Some (Document (JObj [(''name'', JStr ''Notify''),
                             (''nodes'', JList [JObj example_http_node])]))"
  "documents example_env ''n8n-workflows/broken.json'' = Some Malformed"
  "''n8n-workflows/notify.json'' \<notin> read_only example_env"
  "workflow_files example_env = [''n8n-workflows/broken.json'', ''n8n-workflows/notify.json'']"
  by (simp_all add: example_env_def)

lemma example_http_node_enhanced_is_http: "is_http_node (JObj example_http_node_enhanced)"
  by (simp add: is_http_node_def example_http_node_enhanced_def dict_get_def
      http_request_type_def)

theorem rerun_appends_second_pair_witness:
  "\<exists>e1 imp1 e2 imp2.
      enhance_workflow example_env ''n8n-workflows/notify.json'' = (e1, Improved imp1)
    \<and> documents e1 ''n8n-workflows/notify.json''
        = Some (Document (JObj [(''name'', JStr ''Notify''),
            (''nodes'', JList [JObj example_http_node_enhanced,
                               error_handler_node, fallback_node])]))
    \<and> list_ex is_http_node [JObj example_http_node_enhanced, error_handler_node, fallback_node]
    \<and> enhance_workflow e1 ''n8n-workflows/notify.json'' = (e2, Improved imp2)
    \<and> documents e2 ''n8n-workflows/notify.json''
        = Some (Document (JObj [(''name'', JStr ''Notify''),
            (''nodes'', JList [JObj example_http_node_enhanced,
                               error_handler_node, fallback_node,
                               error_handler_node, fallback_node])]))
    \<and> error_nodes_added imp2 = 2"
proof -
  let ?p = "''n8n-workflows/notify.json''"
  let ?w0 = "[(''name'', JStr ''Notify''), (''nodes'', JList [JObj example_http_node])]"
  let ?ns1 = "[JObj example_http_node_enhanced, error_handler_node, fallback_node]"
  let ?w1 = "[(''name'', JStr ''Notify''), (''nodes'', JList ?ns1)]"
  let ?e1 = "example_env\<lparr>documents := (documents example_env)(?p \<mapsto> Document (JObj ?w1))\<rparr>"
  from example_loop obtain imp where loop: "enhance_nodes [JObj example_http_node]
      (initial_improvements ?p) = Inr ([JObj example_http_node_enhanced], imp)" ..
  have nodes0: "map_of ?w0 ''nodes'' = Some (JList [JObj example_http_node])"
    by simp
  have app: "appended_nodes [JObj example_http_node_enhanced]
      = [error_handler_node, fallback_node]"
    by (simp add: appended_nodes_def example_http_node_enhanced_is_http)
  from enhance_workflow_body_run [OF example_env_facts(1) nodes0 loop example_env_facts(3)]
  have "enhance_workflow_body example_env ?p = Inr (?e1, imp\<lparr>error_nodes_added := 2\<rparr>)"
    by (simp add: app)
  then have run1: "enhance_workflow example_env ?p
      = (?e1, Improved (imp\<lparr>error_nodes_added := 2\<rparr>))"
    by (simp add: enhance_workflow_Improved_iff)
  have doc1: "documents ?e1 ?p = Some (Document (JObj ?w1))"
    by simp
  have nodes1: "map_of ?w1 ''nodes'' = Some (JList ?ns1)"
    by simp
  have http: "list_ex is_http_node ?ns1"
    by (simp add: example_http_node_enhanced_is_http)
  from rerun_appends_second_pair [OF run1 doc1 nodes1 http]
  obtain pre e2 imp2 where pre: "?ns1 = pre @ [error_handler_node, fallback_node]"
    and run2: "enhance_workflow ?e1 ?p = (e2, Improved imp2)"
    and doc2: "documents e2 ?p = Some (Document (JObj (AList.update ''nodes''
          (JList (pre @ [error_handler_node, fallback_node,
                         error_handler_node, fallback_node])) ?w1)))"
    and added: "error_nodes_added imp2 = 2"
    by blast
  from pre have "pre = [JObj example_http_node_enhanced]"
    by (simp add: append_eq_Cons_conv)
  with doc2 have doc2': "documents e2 ?p = Some (Document (JObj [(''name'', JStr ''Notify''),
            (''nodes'', JList [JObj example_http_node_enhanced,
                               error_handler_node, fallback_node,
                               error_handler_node, fallback_node])]))"
    by simp
  from run1 doc1 http run2 doc2' added show ?thesis
    by blast
qed

section \<open>Failures at the processor boundary\<close>

lemma enhance_workflow_file: "summary_file (snd (enhance_workflow e p)) = basename p"
proof (cases "enhance_workflow_body e p")
  case (Inl err)
  then show ?thesis
    by (simp add: enhance_workflow_def summary_file_def)
next
  case (Inr res)
  obtain e' imp' where res: "res = (e', imp')"
    by (cases res)
  with Inr have body: "enhance_workflow_body e p = Inr (e', imp')"
    by simp
  from enhance_workflow_body_Inr [OF body]
  obtain w items items' imp where doc: "documents e p = Some (Document (JObj w))"
    and nodes: "map_of w ''nodes'' = Some (JList items)"
    and loop: "enhance_nodes items (initial_improvements p) = Inr (items', imp)"
    and writable: "p \<notin> read_only e"
    by blast
  from enhance_workflow_body_run [OF doc nodes loop writable] body
  have "imp' = imp\<lparr>error_nodes_added := length (appended_nodes items')\<rparr>"
    by simp
  moreover from enhance_nodes_shape [OF loop] have "file_name imp = basename p"
    by (simp add: initial_improvements_def)
  ultimately show ?thesis
    using body by (simp add: enhance_workflow_def summary_file_def)
qed

lemma enhance_files_names: "map summary_file (snd (enhance_files e ps)) = map basename ps"
proof (induction ps arbitrary: e)
  case Nil
  then show ?case
    by simp
next
  case (Cons p ps)
  obtain e1 s where one: "enhance_workflow e p = (e1, s)"
    by (cases "enhance_workflow e p")
  obtain e2 ss where more: "enhance_files e1 ps = (e2, ss)"
    by (cases "enhance_files e1 ps")
  from enhance_workflow_file [of e p] one have "summary_file s = basename p"
    by simp
  moreover from Cons.IH [of e1] more have "map summary_file ss = map basename ps"
    by simp
  ultimately show ?case
    using one more by simp
qed

text \<open>
  C8. When any statement inside the try block of the workflow processor raises (loading,
  parsing, enhancing or persisting), the processor returns the summary holding the file's
  base name and that exception, and the batch driver goes on: the summaries of the
  remaining files follow (the failed file was not written, so they are computed from the
  files as they were). In every case the batch driver returns exactly one summary per
  file, in order, each carrying its file's name.
\<close>

theorem failures_are_caught:
  "(enhance_workflow_body e p = Inl err \<longrightarrow>
      enhance_workflow e p = (e, Failed (basename p) err)
    \<and> enhance_files e (p # ps)
        = (fst (enhance_files e ps), Failed (basename p) err # snd (enhance_files e ps)))
   \<and> map summary_file (snd (enhance_files e ps)) = map basename ps
   \<and> map summary_file (snd (enhance_all_workflows e)) = map basename (workflow_files e)"
proof (intro conjI impI)
  assume fail: "enhance_workflow_body e p = Inl err"
  then show one: "enhance_workflow e p = (e, Failed (basename p) err)"
    by (simp add: enhance_workflow_def)
  show "enhance_files e (p # ps)
      = (fst (enhance_files e ps), Failed (basename p) err # snd (enhance_files e ps))"
    by (simp add: one split: prod.splits)
next
  show "map summary_file (snd (enhance_files e ps)) = map basename ps"
    by (rule enhance_files_names)
next
  show "map summary_file (snd (enhance_all_workflows e)) = map basename (workflow_files e)"
    by (simp add: enhance_all_workflows_def enhance_files_names)
qed

theorem failures_are_caught_witness:
  "enhance_workflow_body example_env ''n8n-workflows/broken.json'' = Inl JSONDecodeError
   \<and> enhance_workflow example_env ''n8n-workflows/broken.json''
       = (example_env, Failed ''broken.json'' JSONDecodeError)
   \<and> snd (enhance_files example_env
            [''n8n-workflows/broken.json'', ''n8n-workflows/notify.json''])
       = Failed ''broken.json'' JSONDecodeError
           # snd (enhance_files example_env [''n8n-workflows/notify.json''])
   \<and> map summary_file (snd (enhance_all_workflows example_env))
       = [''broken.json'', ''notify.json'']"
proof -
  have fail: "enhance_workflow_body example_env ''n8n-workflows/broken.json''
      = Inl JSONDecodeError"
    by (simp add: enhance_workflow_body_def load_def example_env_facts bind_def)
  have b: "basename ''n8n-workflows/broken.json'' = ''broken.json''"
    "basename ''n8n-workflows/notify.json'' = ''notify.json''"
    by (simp_all add: basename_def)
  note inst = failures_are_caught [of example_env "''n8n-workflows/broken.json''"
      JSONDecodeError "[''n8n-workflows/notify.json'']"]
  from inst fail have c1: "enhance_workflow example_env ''n8n-workflows/broken.json''
      = (example_env, Failed (basename ''n8n-workflows/broken.json'') JSONDecodeError)"
    by blast
  from inst fail have "enhance_files example_env
        [''n8n-workflows/broken.json'', ''n8n-workflows/notify.json'']
      = (fst (enhance_files example_env [''n8n-workflows/notify.json'']),
         Failed (basename ''n8n-workflows/broken.json'') JSONDecodeError
           # snd (enhance_files example_env [''n8n-workflows/notify.json'']))"
    by blast
  then have c2: "snd (enhance_files example_env
        [''n8n-workflows/broken.json'', ''n8n-workflows/notify.json''])
      = Failed (basename ''n8n-workflows/broken.json'') JSONDecodeError
          # snd (enhance_files example_env [''n8n-workflows/notify.json''])"
    by (simp only: snd_conv)
  from inst have "map summary_file (snd (enhance_all_workflows example_env))
      = map basename (workflow_files example_env)"
    by blast
  then have c3: "map summary_file (snd (enhance_all_workflows example_env))
      = [''broken.json'', ''notify.json'']"
    by (simp only: example_env_facts(4) list.map b)
  from fail c1 [unfolded b] c2 [unfolded b] c3 show ?thesis
    by (intro conjI)
qed

end
